theory Spec2Isabelle
  imports Complex_Main
begin

section \<open>Numbers, dates and strings\<close>

text \<open>
  The services compute on JavaScript numbers; rounding is not modelled. A JavaScript
  division does not fail on a zero divisor: it yields \<open>Infinity\<close>, \<open>-Infinity\<close> or
  \<open>NaN\<close>, and arithmetic on \<open>undefined\<close> yields \<open>NaN\<close>. Every computed value that can
  be one of these is a \<open>jsnum\<close>, with the arithmetic of the special values written out
  (the sign of a zero is not modelled: a zero divisor counts as \<open>+0\<close>). So is every
  stored column that the services themselves can fill with such a value: the volatility
  columns of a price, which the metrics calculator computes from quotients of closes,
  and the impact score of a quantification. The other numbers read from the store
  (close prices, daily changes, moving averages, human scores) are finite and are
  modelled as \<open>real\<close>.
\<close>

datatype jsnum = Fin real | PInf | NInf | NaN

definition inf_of_sign :: "real \<Rightarrow> jsnum" where
  "inf_of_sign s = (if s > 0 then PInf else if s < 0 then NInf else NaN)"

fun jneg :: "jsnum \<Rightarrow> jsnum" where
  "jneg (Fin a) = Fin (- a)"
| "jneg PInf = NInf"
| "jneg NInf = PInf"
| "jneg NaN = NaN"

fun jadd :: "jsnum \<Rightarrow> jsnum \<Rightarrow> jsnum" where
  "jadd NaN _ = NaN"
| "jadd _ NaN = NaN"
| "jadd (Fin a) (Fin b) = Fin (a + b)"
| "jadd (Fin a) PInf = PInf"
| "jadd (Fin a) NInf = NInf"
| "jadd PInf (Fin b) = PInf"
| "jadd NInf (Fin b) = NInf"
| "jadd PInf PInf = PInf"
| "jadd NInf NInf = NInf"
| "jadd PInf NInf = NaN"
| "jadd NInf PInf = NaN"

definition jsub :: "jsnum \<Rightarrow> jsnum \<Rightarrow> jsnum" where
  "jsub a b = jadd a (jneg b)"

fun jmul :: "jsnum \<Rightarrow> jsnum \<Rightarrow> jsnum" where
  "jmul NaN _ = NaN"
| "jmul _ NaN = NaN"
| "jmul (Fin a) (Fin b) = Fin (a * b)"
| "jmul (Fin a) PInf = inf_of_sign a"
| "jmul (Fin a) NInf = inf_of_sign (- a)"
| "jmul PInf (Fin b) = inf_of_sign b"
| "jmul NInf (Fin b) = inf_of_sign (- b)"
| "jmul PInf PInf = PInf"
| "jmul NInf NInf = PInf"
| "jmul PInf NInf = NInf"
| "jmul NInf PInf = NInf"

fun jdiv :: "jsnum \<Rightarrow> jsnum \<Rightarrow> jsnum" where
  "jdiv NaN _ = NaN"
| "jdiv _ NaN = NaN"
| "jdiv (Fin a) (Fin b) = (if b = 0 then inf_of_sign a else Fin (a / b))"
| "jdiv (Fin a) PInf = Fin 0"
| "jdiv (Fin a) NInf = Fin 0"
| "jdiv PInf (Fin b) = (if b < 0 then NInf else PInf)"
| "jdiv NInf (Fin b) = (if b < 0 then PInf else NInf)"
| "jdiv PInf PInf = NaN"
| "jdiv NInf NInf = NaN"
| "jdiv PInf NInf = NaN"
| "jdiv NInf PInf = NaN"

fun jabs :: "jsnum \<Rightarrow> jsnum" where
  "jabs (Fin a) = Fin \<bar>a\<bar>"
| "jabs PInf = PInf"
| "jabs NInf = PInf"
| "jabs NaN = NaN"

fun jsqrt :: "jsnum \<Rightarrow> jsnum" where
  "jsqrt (Fin a) = (if a < 0 then NaN else Fin (sqrt a))"
| "jsqrt PInf = PInf"
| "jsqrt NInf = NaN"
| "jsqrt NaN = NaN"

text \<open>Comparisons with \<open>NaN\<close> are false.\<close>

fun jlt :: "jsnum \<Rightarrow> jsnum \<Rightarrow> bool" where
  "jlt NaN _ = False"
| "jlt _ NaN = False"
| "jlt (Fin a) (Fin b) = (a < b)"
| "jlt (Fin a) PInf = True"
| "jlt (Fin a) NInf = False"
| "jlt PInf _ = False"
| "jlt NInf (Fin b) = True"
| "jlt NInf PInf = True"
| "jlt NInf NInf = False"

fun jle :: "jsnum \<Rightarrow> jsnum \<Rightarrow> bool" where
  "jle NaN _ = False"
| "jle _ NaN = False"
| "jle a b = (a = b \<or> jlt a b)"

definition jgt :: "jsnum \<Rightarrow> jsnum \<Rightarrow> bool" where
  "jgt a b = jlt b a"

definition jge :: "jsnum \<Rightarrow> jsnum \<Rightarrow> bool" where
  "jge a b = jle b a"

text \<open>\<open>Math.min\<close> and \<open>Math.max\<close> return \<open>NaN\<close> when an argument is \<open>NaN\<close>.\<close>

fun jmin :: "jsnum \<Rightarrow> jsnum \<Rightarrow> jsnum" where
  "jmin NaN _ = NaN"
| "jmin _ NaN = NaN"
| "jmin a b = (if jlt b a then b else a)"

fun jmax :: "jsnum \<Rightarrow> jsnum \<Rightarrow> jsnum" where
  "jmax NaN _ = NaN"
| "jmax _ NaN = NaN"
| "jmax a b = (if jlt a b then b else a)"

text \<open>
  A \<open>Date\<close> is its time value, the milliseconds since the epoch. \<open>differenceInDays\<close>
  and \<open>subDays\<close> belong to the date-fns library: the number of full days between two
  dates, truncated towards zero, and the date a number of days earlier (days of 24
  hours, that is, a time zone without clock changes).
\<close>

type_synonym Date = int

definition msPerDay :: int where
  "msPerDay = 86400000"

definition differenceInDays :: "Date \<Rightarrow> Date \<Rightarrow> int" where
  "differenceInDays dateLeft dateRight =
     (let d = dateLeft - dateRight
      in if 0 \<le> d then d div msPerDay else - ((- d) div msPerDay))"

definition subDays :: "Date \<Rightarrow> int \<Rightarrow> Date" where
  "subDays date amount = date - amount * msPerDay"

text \<open>Strings are lists of characters; \<open>includes_str\<close> (the method \<open>includes\<close>) is substring containment.\<close>

text \<open>The letters A to Z (codes 65 to 90) get their bit of value 32 set; nothing else changes.\<close>

definition lowerChar :: "char \<Rightarrow> char" where
  "lowerChar c =
     (let n = (of_char c :: nat)
      in if 65 \<le> n \<and> n \<le> 90
         then (case c of Char b0 b1 b2 b3 b4 b5 b6 b7 \<Rightarrow> Char b0 b1 b2 b3 b4 True b6 b7)
         else c)"

definition toLowerCase :: "string \<Rightarrow> string" where
  "toLowerCase s = map lowerChar s"

fun startsWith :: "string \<Rightarrow> string \<Rightarrow> bool" where
  "startsWith _ [] = True"
| "startsWith [] (k # ks) = False"
| "startsWith (c # cs) (k # ks) = (c = k \<and> startsWith cs ks)"

fun includes_str :: "string \<Rightarrow> string \<Rightarrow> bool" where
  "includes_str [] k = (k = [])"
| "includes_str (c # cs) k = (startsWith (c # cs) k \<or> includes_str cs k)"

text \<open>
  A generated explanation is kept as the sequence of its pieces: literal text, a number
  (stored or computed) printed with \<open>toFixed\<close> and its digit count, or an integer.
\<close>

datatype Piece = Str string | Fixed real nat | FixedJs jsnum nat | IntPiece int


section \<open>News quantifier (quantifier.ts)\<close>

record CategoryWeight =
  baseImpact :: real
  volatilityMultiplier :: real

definition CATEGORY_WEIGHTS :: "(string \<times> CategoryWeight) list" where
  "CATEGORY_WEIGHTS =
    [(''inflation'', \<lparr>baseImpact = 0.7, volatilityMultiplier = 1.2\<rparr>),
     (''interest_rates'', \<lparr>baseImpact = 0.8, volatilityMultiplier = 1.3\<rparr>),
     (''currency'', \<lparr>baseImpact = 0.6, volatilityMultiplier = 1.1\<rparr>),
     (''geopolitics'', \<lparr>baseImpact = 0.9, volatilityMultiplier = 1.5\<rparr>),
     (''economy'', \<lparr>baseImpact = 0.5, volatilityMultiplier = 1.0\<rparr>),
     (''demand'', \<lparr>baseImpact = 0.6, volatilityMultiplier = 1.0\<rparr>),
     (''supply'', \<lparr>baseImpact = 0.5, volatilityMultiplier = 0.9\<rparr>),
     (''general'', \<lparr>baseImpact = 0.3, volatilityMultiplier = 0.8\<rparr>)]"

definition CATEGORY_WEIGHTS_general :: CategoryWeight where
  "CATEGORY_WEIGHTS_general = \<lparr>baseImpact = 0.3, volatilityMultiplier = 0.8\<rparr>"

definition SENTIMENT_KEYWORDS_bullish :: "string list" where
  "SENTIMENT_KEYWORDS_bullish =
    [''gold rises'', ''gold gains'', ''gold rally'', ''gold surges'', ''safe haven demand'',
     ''inflation fears'', ''rate cut'', ''dovish'', ''uncertainty'', ''crisis'', ''war'',
     ''dollar weakens'', ''stimulus'', ''debt concerns'', ''recession fears'',
     ''central bank buying'', ''gold demand'', ''etf inflows'']"

definition SENTIMENT_KEYWORDS_bearish :: "string list" where
  "SENTIMENT_KEYWORDS_bearish =
    [''gold falls'', ''gold drops'', ''gold declines'', ''gold tumbles'', ''risk-on'',
     ''rate hike'', ''hawkish'', ''strong economy'', ''dollar strength'', ''dollar rally'',
     ''inflation eases'', ''recovery'', ''stock rally'', ''bond yields rise'',
     ''etf outflows'', ''profit taking'']"

datatype Sentiment = bullish | bearish | neutral

record NewsArticle =
  na_id :: string
  na_title :: string
  na_text :: string
  na_category :: "string option"
  na_sentiment :: "real option"
  na_publishedAt :: Date

text \<open>
  A stored price row as the quantifier, the pattern detector and the predictor read it.
  Its \<open>volatility7d\<close> is what the metrics calculator wrote: null, a finite number,
  \<open>Infinity\<close> or \<open>NaN\<close>.
\<close>

record PricePoint =
  pp_id :: string
  pp_date :: Date
  closePrice :: real
  dailyChangePct :: "real option"
  volatility7d :: "jsnum option"
  sma20 :: "real option"
  sma50 :: "real option"
  sma200 :: "real option"

record Analysis =
  an_sentiment :: Sentiment
  an_confidence :: real
  an_keywords :: "string list"

definition analyzeArticleImpact :: "NewsArticle \<Rightarrow> Analysis" where
  "analyzeArticleImpact article =
     (let fullText = toLowerCase (na_title article @ '' '' @ na_text article);
          bullishMatched = filter (\<lambda>keyword. includes_str fullText (toLowerCase keyword))
                             SENTIMENT_KEYWORDS_bullish;
          bearishMatched = filter (\<lambda>keyword. includes_str fullText (toLowerCase keyword))
                             SENTIMENT_KEYWORDS_bearish;
          bullishCount = int (length bullishMatched);
          bearishCount = int (length bearishMatched);
          matchedKeywords = bullishMatched @ bearishMatched;
          totalMatches = bullishCount + bearishCount
      in if totalMatches = 0
         then \<lparr>an_sentiment = neutral, an_confidence = 0.3, an_keywords = []\<rparr>
         else
           let netSentiment = bullishCount - bearishCount;
               confidence = min 0.9 (0.3 + (of_int totalMatches * 0.1))
           in if netSentiment > 0
              then \<lparr>an_sentiment = bullish, an_confidence = confidence,
                     an_keywords = matchedKeywords\<rparr>
              else if netSentiment < 0
              then \<lparr>an_sentiment = bearish, an_confidence = confidence,
                     an_keywords = matchedKeywords\<rparr>
              else \<lparr>an_sentiment = neutral, an_confidence = confidence * 0.5,
                     an_keywords = matchedKeywords\<rparr>)"

record QuantificationResult =
  qr_newsArticleId :: string
  qr_goldPriceId :: string
  qr_impactScore :: jsnum
  qr_confidenceScore :: real
  qr_lagDays :: int
  qr_impactCategory :: string
  qr_reasoning :: "Piece list"

definition sentimentName :: "Sentiment \<Rightarrow> string" where
  "sentimentName s = (case s of bullish \<Rightarrow> ''bullish'' | bearish \<Rightarrow> ''bearish''
                      | neutral \<Rightarrow> ''neutral'')"

fun joinWith :: "string \<Rightarrow> string list \<Rightarrow> string" where
  "joinWith sep [] = []"
| "joinWith sep [x] = x"
| "joinWith sep (x # y # ys) = x @ sep @ joinWith sep (y # ys)"

definition orGeneral :: "string option \<Rightarrow> string" where
  "orGeneral c = (case c of None \<Rightarrow> ''general'' | Some s \<Rightarrow> if s = [] then ''general'' else s)"

definition generateReasoning ::
  "NewsArticle \<Rightarrow> PricePoint \<Rightarrow> Analysis \<Rightarrow> jsnum \<Rightarrow> int \<Rightarrow> Piece list" where
  "generateReasoning article priceData analysis impactScore lagDays =
     (let direction = (if jgt impactScore (Fin 0) then ''bullish''
                       else if jlt impactScore (Fin 0) then ''bearish'' else ''neutral'');
          magnitude = (if jgt (jabs impactScore) (Fin 50) then ''strong''
                       else if jgt (jabs impactScore) (Fin 25) then ''moderate''
                       else ''weak'');
          r1 = [Str ''Article '', Str [CHR 0x22], Str (take 50 (na_title article)),
                Str ''...'', Str [CHR 0x22], Str '' classified as '',
                Str (orGeneral (na_category article)), Str ''. ''];
          r2 = r1 @ [Str ''Sentiment analysis: '', Str (sentimentName (an_sentiment analysis)),
                Str '' (confidence: '', Fixed (an_confidence analysis * 100) 0, Str ''%). ''];
          r3 = (if length (an_keywords analysis) > 0
                then r2 @ [Str ''Key terms: '',
                           Str (joinWith '', '' (take 3 (an_keywords analysis))), Str ''. '']
                else r2);
          r4 = r3 @ [Str ''Impact assessment: '', Str magnitude, Str '' '', Str direction,
                Str '' (score: '', FixedJs impactScore 1, Str ''). ''];
          r5 = (if lagDays > 0
                then r4 @ [Str ''Published '', IntPiece lagDays, Str '' day(s) before price date. '']
                else r4)
      in case dailyChangePct priceData of
           None \<Rightarrow> r5
         | Some pct \<Rightarrow>
             r5 @ [Str ''Actual price moved '', Str (if pct > 0 then ''up'' else ''down''),
                   Str '' '', Fixed \<bar>pct\<bar> 2, Str ''%.''])"

datatype error = Error string

text \<open>The two tables the score is computed from; \<open>findUnique\<close> looks a row up by its id.\<close>

definition findArticle :: "NewsArticle list \<Rightarrow> string \<Rightarrow> NewsArticle option" where
  "findArticle tbl i = find (\<lambda>a. na_id a = i) tbl"

definition findPrice :: "PricePoint list \<Rightarrow> string \<Rightarrow> PricePoint option" where
  "findPrice tbl i = find (\<lambda>p. pp_id p = i) tbl"

text \<open>
  \<open>CATEGORY_WEIGHTS[category] || CATEGORY_WEIGHTS.general\<close> is a property access on a plain
  object. Besides the eight own keys it finds the members that every object inherits
  from \<open>Object.prototype\<close>: functions, and for \<open>__proto__\<close> the prototype itself. These
  are truthy, so the fallback to \<open>general\<close> is not taken for them, and they have neither
  a \<open>baseImpact\<close> nor a \<open>volatilityMultiplier\<close>: reading either gives \<open>undefined\<close>, which
  the arithmetic that follows turns into \<open>NaN\<close>. The result \<open>None\<close> of \<open>categoryWeights\<close>
  is such an inherited member.
\<close>

definition objectPrototypeMembers :: "string list" where
  "objectPrototypeMembers =
    [''constructor'', ''__defineGetter__'', ''__defineSetter__'', ''hasOwnProperty'',
     ''__lookupGetter__'', ''__lookupSetter__'', ''isPrototypeOf'',
     ''propertyIsEnumerable'', ''toString'', ''valueOf'', ''__proto__'',
     ''toLocaleString'']"

definition categoryWeights :: "string \<Rightarrow> CategoryWeight option" where
  "categoryWeights category =
     (case map_of CATEGORY_WEIGHTS category of
        Some w \<Rightarrow> Some w
      | None \<Rightarrow> if category \<in> set objectPrototypeMembers then None
                else Some CATEGORY_WEIGHTS_general)"

definition baseImpactOf :: "CategoryWeight option \<Rightarrow> jsnum" where
  "baseImpactOf weights = (case weights of Some w \<Rightarrow> Fin (baseImpact w) | None \<Rightarrow> NaN)"

definition volatilityMultiplierOf :: "CategoryWeight option \<Rightarrow> jsnum" where
  "volatilityMultiplierOf weights =
     (case weights of Some w \<Rightarrow> Fin (volatilityMultiplier w) | None \<Rightarrow> NaN)"

definition scoreArticle :: "NewsArticle \<Rightarrow> PricePoint \<Rightarrow> QuantificationResult" where
  "scoreArticle article priceData =
     (let lagDays = differenceInDays (pp_date priceData) (na_publishedAt article);
          analysis = analyzeArticleImpact article;
          category = orGeneral (na_category article);
          weights = categoryWeights category;
          impact0 = (if an_sentiment analysis = bullish
                     then jmul (jmul (baseImpactOf weights) (Fin 50))
                               (Fin (an_confidence analysis))
                     else if an_sentiment analysis = bearish
                     then jmul (jmul (jneg (baseImpactOf weights)) (Fin 50))
                               (Fin (an_confidence analysis))
                     else Fin 0);
          impact1 =
            (case dailyChangePct priceData of
               None \<Rightarrow> impact0
             | Some pct \<Rightarrow>
                 let priceDirection = (if pct > 0 then 1 else - 1 :: int);
                     sentimentDirection = (if an_sentiment analysis = bullish then 1
                                           else if an_sentiment analysis = bearish then - 1
                                           else 0 :: int);
                     a = (if priceDirection = sentimentDirection \<and> sentimentDirection \<noteq> 0
                          then jmul impact0 (Fin (1 + \<bar>pct\<bar> / 100)) else impact0)
                 in (case volatility7d priceData of
                       None \<Rightarrow> a
                     | Some vol \<Rightarrow>
                         jmul a (jadd (Fin 1)
                                   (jdiv (jmul vol (volatilityMultiplierOf weights))
                                         (Fin 100)))));
          lagDecay = max 0.2 (1 - (of_int lagDays * 0.15));
          impact2 = jmul impact1 (Fin lagDecay);
          impactScore = jmax (Fin (- 100)) (jmin (Fin 100) impact2);
          reasoning = generateReasoning article priceData analysis impactScore lagDays
      in \<lparr>qr_newsArticleId = na_id article,
          qr_goldPriceId = pp_id priceData,
          qr_impactScore = impactScore,
          qr_confidenceScore = an_confidence analysis * lagDecay,
          qr_lagDays = lagDays,
          qr_impactCategory = category,
          qr_reasoning = reasoning\<rparr>)"

definition calculateImpactScore ::
  "NewsArticle list \<Rightarrow> PricePoint list \<Rightarrow> string \<Rightarrow> string \<Rightarrow> error + QuantificationResult" where
  "calculateImpactScore articles prices newsArticleId goldPriceId =
     (case (findArticle articles newsArticleId, findPrice prices goldPriceId) of
        (Some article, Some priceData) \<Rightarrow> Inr (scoreArticle article priceData)
      | _ \<Rightarrow> Inl (Error ''Article or price data not found''))"

text \<open>
  Example rows: an article published twenty days after the date of the price it is
  scored against, one published two days before it, and one of the category
  \<open>constructor\<close>; a price without metrics, a price with metrics, and a price whose
  seven-day volatility was computed as \<open>NaN\<close>, as the metrics calculator does after a
  close of 0.
\<close>

definition late_article :: NewsArticle where
  "late_article = \<lparr>na_id = ''a1'', na_title = ''War'', na_text = '''', na_category = None,
     na_sentiment = None, na_publishedAt = 20 * msPerDay\<rparr>"

definition early_article :: NewsArticle where
  "early_article = \<lparr>na_id = ''a2'', na_title = ''Rate hike'', na_text = ''Hawkish tone'',
     na_category = Some ''interest_rates'', na_sentiment = None,
     na_publishedAt = - 2 * msPerDay\<rparr>"

definition inherited_article :: NewsArticle where
  "inherited_article = \<lparr>na_id = ''a3'', na_title = ''War'', na_text = '''',
     na_category = Some ''constructor'', na_sentiment = None,
     na_publishedAt = - 2 * msPerDay\<rparr>"

definition day0_price :: PricePoint where
  "day0_price = \<lparr>pp_id = ''p1'', pp_date = 0, closePrice = 2000, dailyChangePct = None,
     volatility7d = None, sma20 = None, sma50 = None, sma200 = None\<rparr>"

definition calm_price :: PricePoint where
  "calm_price = \<lparr>pp_id = ''p3'', pp_date = 0, closePrice = 2000,
     dailyChangePct = Some (- 1.2), volatility7d = Some (Fin 2),
     sma20 = None, sma50 = None, sma200 = None\<rparr>"

definition nan_price :: PricePoint where
  "nan_price = \<lparr>pp_id = ''p2'', pp_date = 0, closePrice = 2000, dailyChangePct = Some 1,
     volatility7d = Some NaN, sma20 = None, sma50 = None, sma200 = None\<rparr>"

subsection \<open>The quantification table and the feedback loop\<close>

text \<open>
  A row of the \<open>newsQuantification\<close> table, with the fields the service reads or
  writes. At most one row exists for a pair of article and price
  (\<open>newsArticleId_goldPriceId\<close> is a unique key).
\<close>

record NewsQuantification =
  nq_id :: string
  nq_newsArticleId :: string
  nq_goldPriceId :: string
  nq_impactScore :: jsnum
  nq_confidenceScore :: real
  nq_lagDays :: int
  nq_impactCategory :: "string option"
  nq_reasoning :: "Piece list option"
  nq_humanVerified :: bool
  nq_humanScore :: "real option"
  nq_humanFeedback :: "string option"
  nq_verifiedAt :: "Date option"
  nq_verifiedBy :: "string option"
  nq_createdAt :: Date

record Feedback =
  fb_humanScore :: real
  fb_humanFeedback :: "string option"
  fb_verifiedBy :: "string option"

definition matchesPair :: "string \<Rightarrow> string \<Rightarrow> NewsQuantification \<Rightarrow> bool" where
  "matchesPair aId pId q = (nq_newsArticleId q = aId \<and> nq_goldPriceId q = pId)"

text \<open>The \<open>update\<close> branch of the upsert: the five computed fields, nothing else.\<close>

definition applyUpdate :: "QuantificationResult \<Rightarrow> NewsQuantification \<Rightarrow> NewsQuantification" where
  "applyUpdate result q =
     q\<lparr>nq_impactScore := qr_impactScore result,
       nq_confidenceScore := qr_confidenceScore result,
       nq_lagDays := qr_lagDays result,
       nq_impactCategory := Some (qr_impactCategory result),
       nq_reasoning := Some (qr_reasoning result)\<rparr>"

text \<open>
  Modelled from the spec: the schema of the store is not part of the sources, so the
  values a created row gets for the fields that \<open>create\<close> does not list are taken from
  the data model (a new quantification is not verified and has no human score); its id
  and creation time come from the store and are parameters.
\<close>

definition createRow ::
  "string \<Rightarrow> Date \<Rightarrow> string \<Rightarrow> string \<Rightarrow> QuantificationResult \<Rightarrow> NewsQuantification" where
  "createRow newId now aId pId result =
     \<lparr>nq_id = newId, nq_newsArticleId = aId, nq_goldPriceId = pId,
      nq_impactScore = qr_impactScore result,
      nq_confidenceScore = qr_confidenceScore result,
      nq_lagDays = qr_lagDays result,
      nq_impactCategory = Some (qr_impactCategory result),
      nq_reasoning = Some (qr_reasoning result),
      nq_humanVerified = False, nq_humanScore = None, nq_humanFeedback = None,
      nq_verifiedAt = None, nq_verifiedBy = None, nq_createdAt = now\<rparr>"

definition upsert ::
  "(NewsQuantification list \<Rightarrow> string) \<Rightarrow> Date \<Rightarrow> string \<Rightarrow> string \<Rightarrow> QuantificationResult
     \<Rightarrow> NewsQuantification list \<Rightarrow> NewsQuantification list" where
  "upsert genId now aId pId result tbl =
     (case find (matchesPair aId pId) tbl of
        Some _ \<Rightarrow> map (\<lambda>q. if matchesPair aId pId q then applyUpdate result q else q) tbl
      | None \<Rightarrow> tbl @ [createRow (genId tbl) now aId pId result])"

text \<open>
  \<open>quantifyNewsForPeriod\<close>: the state of the two nested loops is the table together
  with the counters \<open>quantified\<close> and \<open>errors\<close>; a failed score is caught and counted.
  The option \<open>maxLagDays\<close> defaults to 3.
\<close>

definition quantifyPair ::
  "(NewsQuantification list \<Rightarrow> string) \<Rightarrow> Date \<Rightarrow> NewsArticle list \<Rightarrow> PricePoint list
     \<Rightarrow> PricePoint \<Rightarrow> NewsQuantification list \<times> nat \<times> nat \<Rightarrow> NewsArticle
     \<Rightarrow> NewsQuantification list \<times> nat \<times> nat" where
  "quantifyPair genId now articles prices price st article =
     (case st of (tbl, quantified, errors) \<Rightarrow>
        (case calculateImpactScore articles prices (na_id article) (pp_id price) of
           Inr result \<Rightarrow>
             (upsert genId now (na_id article) (pp_id price) result tbl, quantified + 1, errors)
         | Inl e \<Rightarrow> (tbl, quantified, errors + 1)))"

definition articlesFor :: "NewsArticle list \<Rightarrow> PricePoint \<Rightarrow> int \<Rightarrow> NewsArticle list" where
  "articlesFor articles price maxLagDays =
     filter (\<lambda>a. subDays (pp_date price) maxLagDays \<le> na_publishedAt a
                 \<and> na_publishedAt a \<le> pp_date price) articles"

definition quantifyNewsForPeriod ::
  "(NewsQuantification list \<Rightarrow> string) \<Rightarrow> Date \<Rightarrow> NewsArticle list \<Rightarrow> PricePoint list
     \<Rightarrow> NewsQuantification list \<Rightarrow> Date \<Rightarrow> Date \<Rightarrow> int option
     \<Rightarrow> NewsQuantification list \<times> nat \<times> nat" where
  "quantifyNewsForPeriod genId now articles allPrices tbl startDate endDate options =
     (let maxLagDays = (case options of None \<Rightarrow> 3 | Some d \<Rightarrow> d);
          prices = sort_key pp_date
                     (filter (\<lambda>p. startDate \<le> pp_date p \<and> pp_date p \<le> endDate) allPrices)
      in foldl (\<lambda>st price.
                  foldl (quantifyPair genId now articles allPrices price) st
                        (articlesFor articles price maxLagDays))
               (tbl, 0, 0) prices)"

text \<open>
  \<open>submitFeedback\<close>: an update by id, which fails when no row has the id. An optional
  field that the caller leaves out is not written.
\<close>

definition applyFeedback :: "Date \<Rightarrow> Feedback \<Rightarrow> NewsQuantification \<Rightarrow> NewsQuantification" where
  "applyFeedback now feedback q =
     q\<lparr>nq_humanVerified := True,
       nq_humanScore := Some (fb_humanScore feedback),
       nq_humanFeedback := (case fb_humanFeedback feedback of
                              None \<Rightarrow> nq_humanFeedback q | Some f \<Rightarrow> Some f),
       nq_verifiedAt := Some now,
       nq_verifiedBy := (case fb_verifiedBy feedback of
                           None \<Rightarrow> nq_verifiedBy q | Some v \<Rightarrow> Some v)\<rparr>"

definition submitFeedback ::
  "Date \<Rightarrow> string \<Rightarrow> Feedback \<Rightarrow> NewsQuantification list \<Rightarrow> error + NewsQuantification list" where
  "submitFeedback now quantificationId feedback tbl =
     (case find (\<lambda>q. nq_id q = quantificationId) tbl of
        None \<Rightarrow> Inl (Error ''Record to update not found'')
      | Some _ \<Rightarrow>
          Inr (map (\<lambda>q. if nq_id q = quantificationId then applyFeedback now feedback q else q)
                   tbl))"

text \<open>
  Two rows agree except for the computed fields \<open>impactScore\<close>, \<open>confidenceScore\<close>,
  \<open>lagDays\<close>, \<open>impactCategory\<close> and \<open>reasoning\<close>.
\<close>

definition sameExceptComputed :: "NewsQuantification \<Rightarrow> NewsQuantification \<Rightarrow> bool" where
  "sameExceptComputed q q' =
     (q' = q\<lparr>nq_impactScore := nq_impactScore q',
              nq_confidenceScore := nq_confidenceScore q',
              nq_lagDays := nq_lagDays q',
              nq_impactCategory := nq_impactCategory q',
              nq_reasoning := nq_reasoning q'\<rparr>)"

text \<open>An example table: one unverified row for the pair of \<open>early_article\<close> and \<open>day0_price\<close>.\<close>

definition stale_row :: NewsQuantification where
  "stale_row =
     \<lparr>nq_id = ''q1'', nq_newsArticleId = ''a2'', nq_goldPriceId = ''p1'',
      nq_impactScore = Fin 0, nq_confidenceScore = 0, nq_lagDays = 7,
      nq_impactCategory = None, nq_reasoning = None,
      nq_humanVerified = False, nq_humanScore = None, nq_humanFeedback = None,
      nq_verifiedAt = None, nq_verifiedBy = None, nq_createdAt = 0\<rparr>"

definition one_feedback :: Feedback where
  "one_feedback = \<lparr>fb_humanScore = - 40, fb_humanFeedback = None, fb_verifiedBy = Some ''ann''\<rparr>"

section \<open>Pattern detector (patternDetector.ts)\<close>

record DetectedPattern =
  dp_patternType :: string
  dp_startDate :: Date
  dp_endDate :: Date
  dp_startPriceId :: string
  dp_confidence :: jsnum
  dp_predictedMove :: jsnum
  dp_details :: "Piece list"

text \<open>
  \<open>slice a b\<close> is \<open>Array.prototype.slice\<close> on indices that are not negative.
  \<open>Math.max\<close> and \<open>Math.min\<close> of no arguments are \<open>-Infinity\<close> and \<open>Infinity\<close>.
\<close>

definition slice :: "nat \<Rightarrow> nat \<Rightarrow> 'a list \<Rightarrow> 'a list" where
  "slice a b xs = take (b - a) (drop a xs)"

fun mathMax :: "real list \<Rightarrow> jsnum" where
  "mathMax [] = NInf"
| "mathMax (x # xs) = jmax (Fin x) (mathMax xs)"

fun mathMin :: "real list \<Rightarrow> jsnum" where
  "mathMin [] = PInf"
| "mathMin (x # xs) = jmin (Fin x) (mathMin xs)"

subsection \<open>Crossovers\<close>

definition crossAt :: "PricePoint list \<Rightarrow> nat \<Rightarrow> DetectedPattern list" where
  "crossAt prices i =
     (let prev = prices ! (i - 1); curr = prices ! i
      in case (sma50 prev, sma200 prev, sma50 curr, sma200 curr) of
           (Some p50, Some p200, Some c50, Some c200) \<Rightarrow>
             if p50 = 0 \<or> p200 = 0 \<or> c50 = 0 \<or> c200 = 0 then []
             else
               (if p50 \<le> p200 \<and> c50 > c200
                then [\<lparr>dp_patternType = ''golden_cross'',
                       dp_startDate = pp_date curr, dp_endDate = pp_date curr,
                       dp_startPriceId = pp_id curr,
                       dp_confidence = Fin 0.85, dp_predictedMove = Fin 5,
                       dp_details = [Str ''SMA50 ('', Fixed c50 2,
                                     Str '') crossed above SMA200 ('', Fixed c200 2, Str '')'']\<rparr>]
                else [])
               @
               (if p50 \<ge> p200 \<and> c50 < c200
                then [\<lparr>dp_patternType = ''death_cross'',
                       dp_startDate = pp_date curr, dp_endDate = pp_date curr,
                       dp_startPriceId = pp_id curr,
                       dp_confidence = Fin 0.85, dp_predictedMove = Fin (- 5),
                       dp_details = [Str ''SMA50 ('', Fixed c50 2,
                                     Str '') crossed below SMA200 ('', Fixed c200 2, Str '')'']\<rparr>]
                else [])
         | _ \<Rightarrow> [])"

definition detectCrossPatterns :: "PricePoint list \<Rightarrow> DetectedPattern list" where
  "detectCrossPatterns prices = concat (map (crossAt prices) [1 ..< length prices])"

subsection \<open>Breakouts\<close>

definition lookback :: nat where
  "lookback = 20"

definition windowHigh :: "PricePoint list \<Rightarrow> nat \<Rightarrow> jsnum" where
  "windowHigh prices i = mathMax (map closePrice (slice (i - lookback) i prices))"

definition windowLow :: "PricePoint list \<Rightarrow> nat \<Rightarrow> jsnum" where
  "windowLow prices i = mathMin (map closePrice (slice (i - lookback) i prices))"

text \<open>
  The body of the loop of \<open>detectBreakouts\<close> at index \<open>i\<close>: the occurrences it pushes.
  The guard \<open>!curr.dailyChangePct || !curr.volatility7d\<close> skips the point when either
  value is falsy, that is, \<open>null\<close>, 0 or \<open>NaN\<close>.
\<close>

definition breakoutsAt :: "PricePoint list \<Rightarrow> nat \<Rightarrow> DetectedPattern list" where
  "breakoutsAt prices i =
     (let curr = prices ! i;
          wHigh = windowHigh prices i;
          wLow = windowLow prices i;
          windowRange = jsub wHigh wLow
      in case (dailyChangePct curr, volatility7d curr) of
           (Some pct, Some vol) \<Rightarrow>
             if pct = 0 \<or> vol = Fin 0 \<or> vol = NaN then []
             else
               (if jgt (Fin (closePrice curr)) wHigh \<and> pct > 1.5
                then
                  (let breakoutStrength =
                         jmul (jdiv (jsub (Fin (closePrice curr)) wHigh) windowRange) (Fin 100)
                   in [\<lparr>dp_patternType = ''breakout_up'',
                         dp_startDate = pp_date curr, dp_endDate = pp_date curr,
                         dp_startPriceId = pp_id curr,
                         dp_confidence =
                           jmin (Fin 0.9) (jadd (Fin 0.5) (jdiv breakoutStrength (Fin 100))),
                         dp_predictedMove =
                           jmin (Fin 8) (jadd (Fin 2) (jdiv breakoutStrength (Fin 10))),
                         dp_details = [Str ''Price broke above '', IntPiece (int lookback),
                                       Str ''-day high of '', FixedJs wHigh 2, Str '' with '',
                                       Fixed pct 2, Str ''% gain'']\<rparr>])
                else [])
               @
               (if jlt (Fin (closePrice curr)) wLow \<and> pct < - 1.5
                then
                  (let breakoutStrength =
                         jmul (jdiv (jsub wLow (Fin (closePrice curr))) windowRange) (Fin 100)
                   in [\<lparr>dp_patternType = ''breakout_down'',
                         dp_startDate = pp_date curr, dp_endDate = pp_date curr,
                         dp_startPriceId = pp_id curr,
                         dp_confidence =
                           jmin (Fin 0.9) (jadd (Fin 0.5) (jdiv breakoutStrength (Fin 100))),
                         dp_predictedMove =
                           jneg (jmin (Fin 8) (jadd (Fin 2) (jdiv breakoutStrength (Fin 10)))),
                         dp_details = [Str ''Price broke below '', IntPiece (int lookback),
                                       Str ''-day low of '', FixedJs wLow 2, Str '' with '',
                                       Fixed \<bar>pct\<bar> 2, Str ''% loss'']\<rparr>])
                else [])
         | _ \<Rightarrow> [])"

definition detectBreakouts :: "PricePoint list \<Rightarrow> DetectedPattern list" where
  "detectBreakouts prices = concat (map (breakoutsAt prices) [lookback ..< length prices])"

subsection \<open>Volatility spikes\<close>

fun nonNull :: "'a option list \<Rightarrow> 'a list" where
  "nonNull [] = []"
| "nonNull (None # xs) = nonNull xs"
| "nonNull (Some x # xs) = x # nonNull xs"

definition spikeAt :: "jsnum \<Rightarrow> jsnum \<Rightarrow> jsnum \<Rightarrow> PricePoint \<Rightarrow> DetectedPattern list" where
  "spikeAt avgVolatility stdVolatility threshold price =
     (case volatility7d price of
        None \<Rightarrow> []
      | Some v \<Rightarrow>
          if jgt v threshold
          then [\<lparr>dp_patternType = ''high_volatility_spike'',
                 dp_startDate = pp_date price, dp_endDate = pp_date price,
                 dp_startPriceId = pp_id price,
                 dp_confidence =
                   jmin (Fin 0.9)
                     (jadd (Fin 0.5)
                        (jmul (jdiv (jsub v threshold) stdVolatility) (Fin 0.1))),
                 dp_predictedMove = Fin 0,
                 dp_details = [Str ''Volatility '', FixedJs v 2, Str ''% is '',
                               FixedJs (jdiv (jsub v avgVolatility) stdVolatility) 1,
                               Str '' std devs above average'']\<rparr>]
          else [])"

text \<open>\<open>Math.pow(x, 2)\<close> is the product of \<open>x\<close> with itself, also on the special values.\<close>

definition detectVolatilitySpikes :: "PricePoint list \<Rightarrow> DetectedPattern list" where
  "detectVolatilitySpikes prices =
     (let volatilities = nonNull (map volatility7d prices)
      in if length volatilities = 0 then []
         else
           let avgVolatility = jdiv (foldl jadd (Fin 0) volatilities)
                                    (Fin (real (length volatilities)));
               stdVolatility =
                 jsqrt (jdiv (foldl (\<lambda>a b. jadd a (jmul (jsub b avgVolatility)
                                                         (jsub b avgVolatility)))
                                (Fin 0) volatilities)
                             (Fin (real (length volatilities))));
               threshold = jadd avgVolatility (jmul (Fin 2) stdVolatility)
           in concat (map (spikeAt avgVolatility stdVolatility threshold) prices))"

subsection \<open>Double tops and double bottoms\<close>

definition isMax :: "PricePoint list \<Rightarrow> nat \<Rightarrow> bool" where
  "isMax prices i =
     (let curr = closePrice (prices ! i)
      in list_all (\<lambda>p. closePrice p < curr) (slice (i - 2) i prices)
         \<and> list_all (\<lambda>p. closePrice p < curr) (slice (i + 1) (i + 3) prices))"

definition isMin :: "PricePoint list \<Rightarrow> nat \<Rightarrow> bool" where
  "isMin prices i =
     (let curr = closePrice (prices ! i)
      in list_all (\<lambda>p. closePrice p > curr) (slice (i - 2) i prices)
         \<and> list_all (\<lambda>p. closePrice p > curr) (slice (i + 1) (i + 3) prices))"

definition maximaOf :: "PricePoint list \<Rightarrow> (nat \<times> PricePoint) list" where
  "maximaOf prices =
     map (\<lambda>i. (i, prices ! i)) (filter (isMax prices) [2 ..< length prices - 2])"

definition minimaOf :: "PricePoint list \<Rightarrow> (nat \<times> PricePoint) list" where
  "minimaOf prices =
     map (\<lambda>i. (i, prices ! i)) (filter (isMin prices) [2 ..< length prices - 2])"

definition tolerance :: real where
  "tolerance = 0.02"

definition doubleTopOf ::
  "PricePoint list \<Rightarrow> nat \<times> PricePoint \<Rightarrow> nat \<times> PricePoint \<Rightarrow> DetectedPattern list" where
  "doubleTopOf prices first second =
     (let daysBetween = differenceInDays (pp_date (snd second)) (pp_date (snd first))
      in if daysBetween < 10 \<or> daysBetween > 60 then []
         else
           let priceDiff = jdiv (Fin \<bar>closePrice (snd first) - closePrice (snd second)\<bar>)
                                (Fin (closePrice (snd first)))
           in if jle priceDiff (Fin tolerance)
              then
                (let valleyPrices = slice (fst first) (fst second + 1) prices;
                     valley = mathMin (map closePrice valleyPrices);
                     avgPeak = (closePrice (snd first) + closePrice (snd second)) / 2;
                     depth = jdiv (jsub (Fin avgPeak) valley) (Fin avgPeak)
                 in if jge depth (Fin 0.03)
                    then [\<lparr>dp_patternType = ''double_top'',
                           dp_startDate = pp_date (snd first), dp_endDate = pp_date (snd second),
                           dp_startPriceId = pp_id (snd first),
                           dp_confidence = jmin (Fin 0.85) (jadd (Fin 0.5) (jmul depth (Fin 5))),
                           dp_predictedMove = jneg (jmin (Fin 8) (jmul depth (Fin 100))),
                           dp_details = [Str ''Double top at ~'', Fixed avgPeak 2, Str '' with '',
                                         FixedJs (jmul depth (Fin 100)) 1, Str ''% valley over '',
                                         IntPiece daysBetween, Str '' days'']\<rparr>]
                    else [])
              else [])"

definition doubleBottomOf ::
  "PricePoint list \<Rightarrow> nat \<times> PricePoint \<Rightarrow> nat \<times> PricePoint \<Rightarrow> DetectedPattern list" where
  "doubleBottomOf prices first second =
     (let daysBetween = differenceInDays (pp_date (snd second)) (pp_date (snd first))
      in if daysBetween < 10 \<or> daysBetween > 60 then []
         else
           let priceDiff = jdiv (Fin \<bar>closePrice (snd first) - closePrice (snd second)\<bar>)
                                (Fin (closePrice (snd first)))
           in if jle priceDiff (Fin tolerance)
              then
                (let peakPrices = slice (fst first) (fst second + 1) prices;
                     peak = mathMax (map closePrice peakPrices);
                     avgTrough = (closePrice (snd first) + closePrice (snd second)) / 2;
                     height = jdiv (jsub peak (Fin avgTrough)) (Fin avgTrough)
                 in if jge height (Fin 0.03)
                    then [\<lparr>dp_patternType = ''double_bottom'',
                           dp_startDate = pp_date (snd first), dp_endDate = pp_date (snd second),
                           dp_startPriceId = pp_id (snd first),
                           dp_confidence = jmin (Fin 0.85) (jadd (Fin 0.5) (jmul height (Fin 5))),
                           dp_predictedMove = jmin (Fin 8) (jmul height (Fin 100)),
                           dp_details = [Str ''Double bottom at ~'', Fixed avgTrough 2,
                                         Str '' with '', FixedJs (jmul height (Fin 100)) 1,
                                         Str ''% peak over '', IntPiece daysBetween,
                                         Str '' days'']\<rparr>]
                    else [])
              else [])"

text \<open>The nested loops over pairs \<open>i < j\<close> of extrema, in the order of the source.\<close>

definition pairsOf :: "'a list \<Rightarrow> ('a \<times> 'a) list" where
  "pairsOf xs =
     concat (map (\<lambda>i. map (\<lambda>j. (xs ! i, xs ! j)) [i + 1 ..< length xs]) [0 ..< length xs - 1])"

definition detectDoublePatterns :: "PricePoint list \<Rightarrow> DetectedPattern list" where
  "detectDoublePatterns prices =
     concat (map (\<lambda>(first, second). doubleTopOf prices first second) (pairsOf (maximaOf prices)))
     @ concat (map (\<lambda>(first, second). doubleBottomOf prices first second)
                 (pairsOf (minimaOf prices)))"

subsection \<open>detectPatterns\<close>

text \<open>
  The query: the rows of the price table within the optional date bounds, by ascending
  date. The final sort is stable and its comparator is \<open>b.confidence - a.confidence\<close>;
  an element is moved behind another only when the comparator is positive.
\<close>

definition findManyPrices :: "PricePoint list \<Rightarrow> Date option \<Rightarrow> Date option \<Rightarrow> PricePoint list" where
  "findManyPrices tbl startDate endDate =
     sort_key pp_date
       (filter (\<lambda>p. (case startDate of None \<Rightarrow> True | Some s \<Rightarrow> s \<le> pp_date p)
                   \<and> (case endDate of None \<Rightarrow> True | Some e \<Rightarrow> pp_date p \<le> e)) tbl)"

fun insertByConfidence :: "DetectedPattern \<Rightarrow> DetectedPattern list \<Rightarrow> DetectedPattern list" where
  "insertByConfidence a [] = [a]"
| "insertByConfidence a (b # bs) =
     (if jgt (jsub (dp_confidence b) (dp_confidence a)) (Fin 0)
      then b # insertByConfidence a bs
      else a # b # bs)"

definition sortByConfidence :: "DetectedPattern list \<Rightarrow> DetectedPattern list" where
  "sortByConfidence xs = foldr insertByConfidence xs []"

definition detectPatterns ::
  "PricePoint list \<Rightarrow> Date option \<Rightarrow> Date option \<Rightarrow> DetectedPattern list" where
  "detectPatterns tbl startDate endDate =
     (let prices = findManyPrices tbl startDate endDate
      in if length prices < 30 then []
         else sortByConfidence
                (detectCrossPatterns prices @ detectBreakouts prices
                 @ detectVolatilitySpikes prices @ detectDoublePatterns prices))"

text \<open>
  Example series. \<open>zigzag_series\<close>: thirty days, closes alternating between 100 and 101
  and a last close of 111. \<open>doubling_series\<close>: thirty days, every close twice the one
  before, so that each daily change is 100 percent and the seven-day volatility, the
  deviation of equal returns, is 0. \<open>nan_tail_series\<close>: the same thirty days, the
  volatility of the last one stored as \<open>NaN\<close>. \<open>short_series\<close>: the first two days of the
  zigzag.
\<close>

definition zigzag_point :: "nat \<Rightarrow> PricePoint" where
  "zigzag_point i =
     \<lparr>pp_id = replicate i CHR ''z'', pp_date = int i * msPerDay,
      closePrice = (if i = 29 then 111 else if even i then 100 else 101),
      dailyChangePct = (if i = 29 then Some 11 else None),
      volatility7d = (if i = 29 then Some (Fin 1) else None),
      sma20 = None, sma50 = None, sma200 = None\<rparr>"

definition zigzag_series :: "PricePoint list" where
  "zigzag_series = map zigzag_point [0 ..< 30]"

definition short_series :: "PricePoint list" where
  "short_series = map zigzag_point [0 ..< 2]"

definition doubling_point :: "nat \<Rightarrow> PricePoint" where
  "doubling_point i =
     \<lparr>pp_id = replicate i CHR ''d'', pp_date = int i * msPerDay,
      closePrice = 2 ^ i,
      dailyChangePct = (if i = 0 then None else Some 100),
      volatility7d = (if i < 7 then None else Some (Fin 0)),
      sma20 = None, sma50 = None, sma200 = None\<rparr>"

definition doubling_series :: "PricePoint list" where
  "doubling_series = map doubling_point [0 ..< 30]"

definition nan_tail_series :: "PricePoint list" where
  "nan_tail_series =
     map (\<lambda>i. if i = 29 then (doubling_point i)\<lparr>volatility7d := Some NaN\<rparr>
              else doubling_point i) [0 ..< 30]"

definition zigzag_breakout :: DetectedPattern where
  "zigzag_breakout =
     \<lparr>dp_patternType = ''breakout_up'', dp_startDate = 29 * msPerDay,
      dp_endDate = 29 * msPerDay, dp_startPriceId = replicate 29 CHR ''z'',
      dp_confidence = Fin 0.9, dp_predictedMove = Fin 8,
      dp_details = [Str ''Price broke above '', IntPiece 20, Str ''-day high of '',
                    FixedJs (Fin 101) 2, Str '' with '', Fixed 11 2, Str ''% gain'']\<rparr>"

section \<open>Signal predictor (predictor.ts)\<close>

datatype Source = pattern | news | technical | economic

text \<open>The direction of a signal has the three values of a sentiment.\<close>

record PredictionSignal =
  sig_source :: Source
  sig_name :: string
  sig_direction :: Sentiment
  sig_strength :: real
  sig_description :: "Piece list"

datatype PredictedDirection = up | down | sideways

record Prediction =
  pr_date :: Date
  pr_currentPrice :: real
  pr_predictedDirection :: PredictedDirection
  pr_predictedChange :: real
  pr_confidence :: real
  pr_timeHorizon :: "Piece list"
  pr_signals :: "PredictionSignal list"
  pr_reasoning :: "Piece list"

subsection \<open>Technical indicators\<close>

definition lastN :: "nat \<Rightarrow> 'a list \<Rightarrow> 'a list" where
  "lastN n xs = drop (length xs - n) xs"

definition calculateRSI :: "real list \<Rightarrow> nat \<Rightarrow> real" where
  "calculateRSI prices period =
     (if length prices < period + 1 then 50
      else
        let changes = map2 (\<lambda>p q. p - q) (tl prices) prices;
            recentChanges = lastN period changes;
            gains = filter (\<lambda>c. c > 0) recentChanges;
            losses = map (\<lambda>c. - c) (filter (\<lambda>c. c < 0) recentChanges);
            avgGain = (if length gains > 0 then foldl (+) 0 gains / real period else 0);
            avgLoss = (if length losses > 0 then foldl (+) 0 losses / real period else 0)
        in if avgLoss = 0 then 100
           else let rs = avgGain / avgLoss in 100 - (100 / (1 + rs)))"

text \<open>
  The exponential average starts from \<open>data[0]\<close>; on an empty array that is \<open>undefined\<close> and
  the result is \<open>NaN\<close>, here \<open>None\<close>. A comparison with \<open>NaN\<close> is false.
\<close>

definition ema :: "real list \<Rightarrow> real \<Rightarrow> real option" where
  "ema data period =
     (let k = 2 / (period + 1)
      in case data of
           [] \<Rightarrow> None
         | d0 # rest \<Rightarrow> Some (foldl (\<lambda>e d. d * k + e * (1 - k)) d0 rest))"

record MACD =
  macd :: "real option"
  signal :: "real option"
  histogram :: "real option"

definition calculateMACD :: "real list \<Rightarrow> MACD" where
  "calculateMACD prices =
     (if length prices < 26 then \<lparr>macd = Some 0, signal = Some 0, histogram = Some 0\<rparr>
      else
        case (ema (lastN 12 prices) 12, ema (lastN 26 prices) 26) of
          (Some ema12, Some ema26) \<Rightarrow>
            (let m = ema12 - ema26
             in case ema [m] 9 of
                  Some s \<Rightarrow> \<lparr>macd = Some m, signal = Some s, histogram = Some (m - s)\<rparr>
                | None \<Rightarrow> \<lparr>macd = Some m, signal = None, histogram = None\<rparr>)
        | _ \<Rightarrow> \<lparr>macd = None, signal = None, histogram = None\<rparr>)"

definition rsiSignals :: "real \<Rightarrow> PredictionSignal list" where
  "rsiSignals rsi =
     (if rsi > 70
      then [\<lparr>sig_source = technical, sig_name = ''RSI Overbought'', sig_direction = bearish,
             sig_strength = min ((rsi - 70) * 3) 100,
             sig_description = [Str ''RSI at '', Fixed rsi 1,
                                Str '' indicates overbought conditions'']\<rparr>]
      else if rsi < 30
      then [\<lparr>sig_source = technical, sig_name = ''RSI Oversold'', sig_direction = bullish,
             sig_strength = min ((30 - rsi) * 3) 100,
             sig_description = [Str ''RSI at '', Fixed rsi 1,
                                Str '' indicates oversold conditions'']\<rparr>]
      else [])"

definition macdSignals :: "MACD \<Rightarrow> PredictionSignal list" where
  "macdSignals macdData =
     (case (histogram macdData, macd macdData, signal macdData) of
        (Some h, Some m, Some s) \<Rightarrow>
          if h > 0 \<and> m > s
          then [\<lparr>sig_source = technical, sig_name = ''MACD Bullish'', sig_direction = bullish,
                 sig_strength = min (\<bar>h\<bar> * 10) 80,
                 sig_description = [Str ''MACD crossed above signal line'']\<rparr>]
          else if h < 0 \<and> m < s
          then [\<lparr>sig_source = technical, sig_name = ''MACD Bearish'', sig_direction = bearish,
                 sig_strength = min (\<bar>h\<bar> * 10) 80,
                 sig_description = [Str ''MACD crossed below signal line'']\<rparr>]
          else []
      | _ \<Rightarrow> [])"

definition crossoverOf :: "real \<Rightarrow> PredictionSignal list" where
  "crossoverOf diff =
     (if diff > 0
      then [\<lparr>sig_source = technical, sig_name = ''Golden Cross Active'',
             sig_direction = bullish, sig_strength = min (diff * 5) 70,
             sig_description = [Str ''50-day SMA '', Fixed diff 2,
                                Str ''% above 200-day SMA'']\<rparr>]
      else [\<lparr>sig_source = technical, sig_name = ''Death Cross Active'',
             sig_direction = bearish, sig_strength = min (\<bar>diff\<bar> * 5) 70,
             sig_description = [Str ''50-day SMA '', Fixed \<bar>diff\<bar> 2,
                                Str ''% below 200-day SMA'']\<rparr>])"

definition crossoverSignals :: "PricePoint \<Rightarrow> PredictionSignal list" where
  "crossoverSignals latest =
     (case (sma50 latest, sma200 latest) of
        (Some s50, Some s200) \<Rightarrow>
          if s50 = 0 \<or> s200 = 0 then []
          else crossoverOf ((s50 - s200) / s200 * 100)
      | _ \<Rightarrow> [])"

text \<open>
  The trend strength divides by the 20-day average, which can be 0. The signal is pushed
  only when \<open>|trendStrength| > 1\<close>, and then \<open>Math.min(|trendStrength| * 20, 60)\<close> is a
  finite number (60 when the trend strength is infinite).
\<close>

definition trendOf :: "jsnum \<Rightarrow> PredictionSignal list" where
  "trendOf trendStrength =
     (if jgt (jabs trendStrength) (Fin 1)
      then (case jmin (jmul (jabs trendStrength) (Fin 20)) (Fin 60) of
              Fin strength \<Rightarrow>
                [\<lparr>sig_source = technical,
                  sig_name = (if jgt trendStrength (Fin 0) then ''Uptrend'' else ''Downtrend''),
                  sig_direction = (if jgt trendStrength (Fin 0) then bullish else bearish),
                  sig_strength = strength,
                  sig_description =
                    [Str ''Price '',
                     Str (if jgt trendStrength (Fin 0) then ''rising'' else ''falling''),
                     Str '' '', FixedJs (jabs trendStrength) 2,
                     Str ''% from 20-day average'']\<rparr>]
            | _ \<Rightarrow> [])
      else [])"

definition trendSignals :: "PricePoint list \<Rightarrow> PredictionSignal list" where
  "trendSignals prices =
     (if length prices \<ge> 20
      then
        let recent5 = foldl (\<lambda>s p. s + closePrice p) 0 (lastN 5 prices) / 5;
            recent20 = foldl (\<lambda>s p. s + closePrice p) 0 (lastN 20 prices) / 20
        in trendOf (jmul (jdiv (Fin (recent5 - recent20)) (Fin recent20)) (Fin 100))
      else [])"

datatype js_error = TypeError string

text \<open>
  \<open>detectTechnicalPatterns\<close> reads \<open>sma50\<close> of the last price; on an empty series the last
  price is \<open>undefined\<close> and the read throws.
\<close>

definition detectTechnicalPatterns :: "PricePoint list \<Rightarrow> js_error + PredictionSignal list" where
  "detectTechnicalPatterns prices =
     (let closePrices = map closePrice prices;
          rsi = calculateRSI closePrices 14;
          macdData = calculateMACD closePrices
      in case prices of
           [] \<Rightarrow> Inl (TypeError ''Cannot read properties of undefined'')
         | _ \<Rightarrow>
             Inr (rsiSignals rsi @ macdSignals macdData @ crossoverSignals (last prices)
                  @ trendSignals prices))"

subsection \<open>Signals from the store\<close>

text \<open>
  The rows as the predictor reads them. The three queries take the current time \<open>now\<close>,
  keep the rows of the last 30 or 7 days and order them by descending date.
\<close>

record Pattern =
  pt_name :: string
  pt_description :: "string option"
  pt_typicalImpact :: "real option"

record PatternOccurrence =
  po_startDate :: Date
  po_confidence :: "real option"
  po_pattern :: "Pattern option"

record QuantificationScores =
  qs_createdAt :: Date
  qs_humanScore :: "real option"
  qs_algorithmScore :: "real option"

record EconomicIndicator =
  ei_indicator :: string
  ei_date :: Date
  ei_value :: real

definition orElse :: "real option \<Rightarrow> real \<Rightarrow> real" where
  "orElse v d = (case v of None \<Rightarrow> d | Some x \<Rightarrow> if x = 0 then d else x)"

definition patternSignalOf :: "PatternOccurrence \<Rightarrow> PredictionSignal list" where
  "patternSignalOf occurrence =
     (case po_pattern occurrence of
        None \<Rightarrow> []
      | Some pat \<Rightarrow>
          let isBullish = orElse (pt_typicalImpact pat) 0 > 0
          in [\<lparr>sig_source = pattern, sig_name = pt_name pat,
                sig_direction = (if isBullish then bullish else bearish),
                sig_strength = min \<bar>orElse (po_confidence occurrence) 50\<bar> 100,
                sig_description =
                  (case pt_description pat of
                     None \<Rightarrow> [Str (pt_name pat), Str '' pattern detected'']
                   | Some d \<Rightarrow> if d = [] then [Str (pt_name pat), Str '' pattern detected'']
                               else [Str d])\<rparr>])"

definition getPatternSignals :: "Date \<Rightarrow> PatternOccurrence list \<Rightarrow> PredictionSignal list" where
  "getPatternSignals now tbl =
     (let recentPatterns =
            sort_key (\<lambda>occ. - po_startDate occ)
              (filter (\<lambda>occ. now - 30 * msPerDay \<le> po_startDate occ) tbl)
      in concat (map patternSignalOf recentPatterns))"

definition getNewsSignals :: "Date \<Rightarrow> QuantificationScores list \<Rightarrow> PredictionSignal list" where
  "getNewsSignals now tbl =
     (let recentNews =
            take 10 (sort_key (\<lambda>q. - qs_createdAt q)
                       (filter (\<lambda>q. now - 7 * msPerDay \<le> qs_createdAt q) tbl));
          totalImpact =
            foldl (\<lambda>t quant.
                     t + (case qs_humanScore quant of
                            Some h \<Rightarrow> h
                          | None \<Rightarrow> (case qs_algorithmScore quant of Some a \<Rightarrow> a | None \<Rightarrow> 0)))
                  0 recentNews;
          count = length recentNews
      in if count > 0
         then
           let avgImpact = totalImpact / real count
           in if \<bar>avgImpact\<bar> > 10
              then [\<lparr>sig_source = news, sig_name = ''News Sentiment'',
                     sig_direction = (if avgImpact > 0 then bullish else bearish),
                     sig_strength = min \<bar>avgImpact\<bar> 100,
                     sig_description = [IntPiece (int count),
                                        Str '' recent news articles with avg impact of '',
                                        Fixed avgImpact 1]\<rparr>]
              else []
         else [])"

text \<open>
  The indicators are grouped by name in a \<open>Map\<close>, which keeps the names in the order of
  their first row. The change divides by the previous value, which can be 0; the signal
  is pushed only when \<open>|change| > 0.5\<close>, and then \<open>Math.min(|change| * 10, 50)\<close> is finite.
\<close>

fun firstOccurrences :: "string list \<Rightarrow> string list \<Rightarrow> string list" where
  "firstOccurrences seen [] = []"
| "firstOccurrences seen (x # xs) =
     (if x \<in> set seen then firstOccurrences seen xs else x # firstOccurrences (x # seen) xs)"

definition interpretChange :: "string \<Rightarrow> jsnum \<Rightarrow> Sentiment \<times> Piece list" where
  "interpretChange name change =
     (let rising = jgt change (Fin 0)
      in if includes_str name ''inflation'' \<or> includes_str name ''CPI''
         then (if rising then bullish else bearish,
               [Str ''Inflation '', Str (if rising then ''rising'' else ''falling''),
                Str '' ('', FixedJs change 2, Str ''%)''])
         else if includes_str name ''interest'' \<or> includes_str name ''FEDFUNDS''
         then (if rising then bearish else bullish,
               [Str ''Interest rates '', Str (if rising then ''rising'' else ''falling'')])
         else if includes_str name ''USD'' \<or> includes_str name ''DXY''
         then (if rising then bearish else bullish,
               [Str ''USD strength '', Str (if rising then ''increasing'' else ''decreasing'')])
         else (neutral, []))"

definition economicOf :: "string \<Rightarrow> jsnum \<Rightarrow> PredictionSignal list" where
  "economicOf name change =
     (case interpretChange name change of
        (direction, description) \<Rightarrow>
          if direction \<noteq> neutral \<and> jgt (jabs change) (Fin 0.5)
          then (case jmin (jmul (jabs change) (Fin 10)) (Fin 50) of
                  Fin strength \<Rightarrow>
                    [\<lparr>sig_source = economic, sig_name = name, sig_direction = direction,
                      sig_strength = strength, sig_description = description\<rparr>]
                | _ \<Rightarrow> [])
          else [])"

definition economicSignalOf :: "string \<Rightarrow> EconomicIndicator list \<Rightarrow> PredictionSignal list" where
  "economicSignalOf name vals =
     (case vals of
        latest # previous # _ \<Rightarrow>
          economicOf name (jmul (jdiv (Fin (ei_value latest - ei_value previous))
                                      (Fin (ei_value previous))) (Fin 100))
      | _ \<Rightarrow> [])"

definition getEconomicSignals :: "Date \<Rightarrow> EconomicIndicator list \<Rightarrow> PredictionSignal list" where
  "getEconomicSignals now tbl =
     (let indicators =
            sort_key (\<lambda>r. - ei_date r) (filter (\<lambda>r. now - 30 * msPerDay \<le> ei_date r) tbl);
          names = firstOccurrences [] (map ei_indicator indicators)
      in concat (map (\<lambda>name. economicSignalOf name
                                (filter (\<lambda>r. ei_indicator r = name) indicators)) names))"

subsection \<open>Fusion\<close>

definition sourceWeights :: "Source \<Rightarrow> real" where
  "sourceWeights s = (case s of technical \<Rightarrow> 0.35 | pattern \<Rightarrow> 0.25 | news \<Rightarrow> 0.25
                       | economic \<Rightarrow> 0.15)"

text \<open>The \<open>forEach\<close> over all signals; its state is \<open>(bullishScore, bearishScore, totalWeight)\<close>.\<close>

definition addSignal :: "real \<times> real \<times> real \<Rightarrow> PredictionSignal \<Rightarrow> real \<times> real \<times> real" where
  "addSignal st sig =
     (case st of (bullishScore, bearishScore, totalWeight) \<Rightarrow>
        let weight = sourceWeights (sig_source sig) * (sig_strength sig / 100)
        in if sig_direction sig = bullish
           then (bullishScore + weight, bearishScore, totalWeight + weight)
           else if sig_direction sig = bearish
           then (bullishScore, bearishScore + weight, totalWeight + weight)
           else (bullishScore, bearishScore, totalWeight + weight))"

definition netScoreOf :: "PredictionSignal list \<Rightarrow> real" where
  "netScoreOf allSignals =
     (case foldl addSignal (0, 0, 0) allSignals of
        (bullishScore, bearishScore, totalWeight) \<Rightarrow>
          if totalWeight > 0 then (bullishScore - bearishScore) / totalWeight else 0)"

text \<open>
  The stable sort by descending strength that picks the three key factors (comparator
  \<open>b.strength - a.strength\<close>).
\<close>

fun insertByStrength :: "PredictionSignal \<Rightarrow> PredictionSignal list \<Rightarrow> PredictionSignal list" where
  "insertByStrength a [] = [a]"
| "insertByStrength a (b # bs) =
     (if sig_strength b - sig_strength a > 0 then b # insertByStrength a bs else a # b # bs)"

definition fuseSignals ::
  "Date \<Rightarrow> real \<Rightarrow> int \<Rightarrow> PredictionSignal list \<Rightarrow> Prediction" where
  "fuseSignals now currentPrice horizonDays allSignals =
     (let netScore = netScoreOf allSignals;
          (predictedDirection, confidence, predictedChange) =
            (if \<bar>netScore\<bar> < 0.1
             then (sideways, 30 + (1 - \<bar>netScore\<bar> * 10) * 20, 0)
             else if netScore > 0
             then (up, min (50 + netScore * 50) 90, netScore * 5)
             else (down, min (50 + \<bar>netScore\<bar> * 50) 90, netScore * 5));
          bullishSignals = filter (\<lambda>s. sig_direction s = bullish) allSignals;
          bearishSignals = filter (\<lambda>s. sig_direction s = bearish) allSignals;
          topSignals = take 3 (foldr insertByStrength allSignals [])
      in \<lparr>pr_date = now,
          pr_currentPrice = currentPrice,
          pr_predictedDirection = predictedDirection,
          pr_predictedChange = predictedChange,
          pr_confidence = confidence,
          pr_timeHorizon = [IntPiece horizonDays, Str '' days''],
          pr_signals = allSignals,
          pr_reasoning =
            [Str ''Based on '', IntPiece (int (length allSignals)), Str '' signals: '',
             IntPiece (int (length bullishSignals)), Str '' bullish, '',
             IntPiece (int (length bearishSignals)), Str '' bearish. '',
             Str ''Key factors: '', Str (joinWith '', '' (map sig_name topSignals)), Str ''.'']\<rparr>)"

text \<open>
  \<open>generatePrediction\<close> reads the latest 200 prices, oldest first, gathers the four groups
  of signals and fuses them. The current time and the horizon (7 days when the caller
  gives none) are parameters.
\<close>

record PredictorStore =
  ps_goldPrices :: "PricePoint list"
  ps_patternOccurrences :: "PatternOccurrence list"
  ps_newsQuantifications :: "QuantificationScores list"
  ps_economicIndicators :: "EconomicIndicator list"

definition generatePrediction :: "PredictorStore \<Rightarrow> Date \<Rightarrow> int \<Rightarrow> js_error + Prediction" where
  "generatePrediction db now horizonDays =
     (let prices = rev (take 200 (sort_key (\<lambda>p. - pp_date p) (ps_goldPrices db)))
      in case detectTechnicalPatterns prices of
           Inl e \<Rightarrow> Inl e
         | Inr technicalSignals \<Rightarrow>
             let patternSignals = getPatternSignals now (ps_patternOccurrences db);
                 newsSignals = getNewsSignals now (ps_newsQuantifications db);
                 economicSignals = getEconomicSignals now (ps_economicIndicators db);
                 allSignals = technicalSignals @ patternSignals @ newsSignals @ economicSignals
             in Inr (fuseSignals now (closePrice (last prices)) horizonDays allSignals))"

text \<open>The weight that the loop adds for a signal.\<close>

definition weightOf :: "PredictionSignal \<Rightarrow> real" where
  "weightOf s = sourceWeights (sig_source s) * (sig_strength s / 100)"

text \<open>
  Example stores. \<open>quiet_store\<close> holds one price without metrics and nothing else.
  \<open>flat_cross_store\<close> holds one price whose two moving averages are equal, for which the
  technical detector reports an active death cross of strength 0.
\<close>

definition quiet_store :: PredictorStore where
  "quiet_store = \<lparr>ps_goldPrices = [day0_price], ps_patternOccurrences = [],
     ps_newsQuantifications = [], ps_economicIndicators = []\<rparr>"

definition flat_cross_price :: PricePoint where
  "flat_cross_price = \<lparr>pp_id = ''p9'', pp_date = 0, closePrice = 100, dailyChangePct = None,
     volatility7d = None, sma20 = None, sma50 = Some 100, sma200 = Some 100\<rparr>"

definition flat_cross_store :: PredictorStore where
  "flat_cross_store = \<lparr>ps_goldPrices = [flat_cross_price], ps_patternOccurrences = [],
     ps_newsQuantifications = [], ps_economicIndicators = []\<rparr>"

definition flat_death_cross :: PredictionSignal where
  "flat_death_cross =
     \<lparr>sig_source = technical, sig_name = ''Death Cross Active'', sig_direction = bearish,
      sig_strength = 0,
      sig_description = [Str ''50-day SMA '', Fixed 0 2, Str ''% below 200-day SMA'']\<rparr>"

definition one_bullish :: PredictionSignal where
  "one_bullish =
     \<lparr>sig_source = news, sig_name = ''News Sentiment'', sig_direction = bullish,
      sig_strength = 40, sig_description = []\<rparr>"

definition one_bearish :: PredictionSignal where
  "one_bearish =
     \<lparr>sig_source = technical, sig_name = ''RSI Overbought'', sig_direction = bearish,
      sig_strength = 30, sig_description = []\<rparr>"

section \<open>Metrics calculator (calculateDerivedMetrics)\<close>

text \<open>
  A row of the price table as \<open>calculateDerivedMetrics\<close> reads and writes it (the columns
  it does not touch are left out). The two volatilities divide by earlier closes, which
  can be 0, so what is written there is a \<open>jsnum\<close>.
\<close>

record GoldPriceRow =
  gp_id :: string
  gp_date :: Date
  gp_closePrice :: real
  gp_dailyChange :: "real option"
  gp_dailyChangePct :: "real option"
  gp_volatility7d :: "jsnum option"
  gp_volatility30d :: "jsnum option"
  gp_sma20 :: "real option"
  gp_sma50 :: "real option"
  gp_sma200 :: "real option"

record DerivedMetrics =
  dm_dailyChange :: "real option"
  dm_dailyChangePct :: "real option"
  dm_volatility7d :: "jsnum option"
  dm_volatility30d :: "jsnum option"
  dm_sma20 :: "real option"
  dm_sma50 :: "real option"
  dm_sma200 :: "real option"

text \<open>
  The returns of the \<open>w\<close> days ending at \<open>i\<close> (the inner loop from \<open>i - (w - 1)\<close> to \<open>i\<close>,
  which skips \<open>j = 0\<close>), over the closes of the ordered series.
\<close>

definition returnsWindow :: "real list \<Rightarrow> nat \<Rightarrow> nat \<Rightarrow> jsnum list" where
  "returnsWindow closes i w =
     map (\<lambda>j. jdiv (Fin (closes ! j - closes ! (j - 1))) (Fin (closes ! (j - 1))))
         (filter (\<lambda>j. j > 0) [i - (w - 1) ..< i + 1])"

definition volatilityOf :: "jsnum list \<Rightarrow> jsnum option" where
  "volatilityOf returns =
     (if length returns > 0
      then
        let mean = jdiv (foldl jadd (Fin 0) returns) (Fin (real (length returns)));
            variance = jdiv (foldl (\<lambda>a b. jadd a (jmul (jsub b mean) (jsub b mean)))
                                   (Fin 0) returns)
                            (Fin (real (length returns)))
        in Some (jmul (jsqrt variance) (Fin 100))
      else None)"

definition smaAt :: "real list \<Rightarrow> nat \<Rightarrow> nat \<Rightarrow> real option" where
  "smaAt closes i n =
     (if i \<ge> n - 1
      then Some (foldl (+) 0 (slice (i - (n - 1)) (i + 1) closes) / real n)
      else None)"

definition metricsAt :: "real list \<Rightarrow> nat \<Rightarrow> DerivedMetrics" where
  "metricsAt closes i =
     \<lparr>dm_dailyChange = (if i > 0 then Some (closes ! i - closes ! (i - 1)) else None),
      dm_dailyChangePct =
        (if i > 0 \<and> closes ! (i - 1) \<noteq> 0
         then Some (((closes ! i - closes ! (i - 1)) / closes ! (i - 1)) * 100)
         else None),
      dm_volatility7d = (if i \<ge> 7 then volatilityOf (returnsWindow closes i 7) else None),
      dm_volatility30d = (if i \<ge> 30 then volatilityOf (returnsWindow closes i 30) else None),
      dm_sma20 = smaAt closes i 20,
      dm_sma50 = smaAt closes i 50,
      dm_sma200 = smaAt closes i 200\<rparr>"

definition setMetrics :: "DerivedMetrics \<Rightarrow> GoldPriceRow \<Rightarrow> GoldPriceRow" where
  "setMetrics m r =
     r\<lparr>gp_dailyChange := dm_dailyChange m,
       gp_dailyChangePct := dm_dailyChangePct m,
       gp_volatility7d := dm_volatility7d m,
       gp_volatility30d := dm_volatility30d m,
       gp_sma20 := dm_sma20 m,
       gp_sma50 := dm_sma50 m,
       gp_sma200 := dm_sma200 m\<rparr>"

text \<open>\<open>prisma.goldPrice.update\<close> by id: the row with the id gets the seven derived values.\<close>

definition updateRow :: "string \<Rightarrow> DerivedMetrics \<Rightarrow> GoldPriceRow list \<Rightarrow> GoldPriceRow list" where
  "updateRow rowId m tbl = map (\<lambda>r. if gp_id r = rowId then setMetrics m r else r) tbl"

text \<open>
  The series is read once, ordered by date; the loop then updates the table row by row.
  The result is the table and the count \<open>updated\<close>.
\<close>

definition calculateDerivedMetrics :: "GoldPriceRow list \<Rightarrow> GoldPriceRow list \<times> nat" where
  "calculateDerivedMetrics tbl =
     (let prices = sort_key gp_date tbl;
          closes = map gp_closePrice prices
      in (foldl (\<lambda>t i. updateRow (gp_id (prices ! i)) (metricsAt closes i) t)
                tbl [0 ..< length prices],
          length prices))"

text \<open>An example table: a close of 0 followed by a close of 5.\<close>

definition zero_then_five :: "GoldPriceRow list" where
  "zero_then_five =
     [\<lparr>gp_id = ''g0'', gp_date = 0, gp_closePrice = 0, gp_dailyChange = None,
       gp_dailyChangePct = None, gp_volatility7d = None, gp_volatility30d = None,
       gp_sma20 = None, gp_sma50 = None, gp_sma200 = None\<rparr>,
      \<lparr>gp_id = ''g1'', gp_date = msPerDay, gp_closePrice = 5, gp_dailyChange = None,
       gp_dailyChangePct = None, gp_volatility7d = None, gp_volatility30d = None,
       gp_sma20 = None, gp_sma50 = None, gp_sma200 = None\<rparr>]"


section \<open>Swing finder (findSwings)\<close>

datatype SwingDirection = Up | Down

datatype DirectionFilter = OnlyUp | OnlyDown | Both

record SwingResult =
  sw_startDate :: Date
  sw_endDate :: Date
  sw_startPrice :: real
  sw_endPrice :: real
  sw_changePercent :: jsnum
  sw_changeAbsolute :: real
  sw_durationDays :: int
  sw_direction :: SwingDirection

text \<open>\<open>!direction || direction === 'both' || direction === swingDirection\<close>\<close>

definition passesFilter :: "DirectionFilter option \<Rightarrow> SwingDirection \<Rightarrow> bool" where
  "passesFilter direction swingDirection =
     (case direction of
        None \<Rightarrow> True
      | Some Both \<Rightarrow> True
      | Some OnlyUp \<Rightarrow> swingDirection = Up
      | Some OnlyDown \<Rightarrow> swingDirection = Down)"

definition changePctOf :: "real \<Rightarrow> real \<Rightarrow> jsnum" where
  "changePctOf fromPrice toPrice = jmul (jdiv (Fin (toPrice - fromPrice)) (Fin fromPrice)) (Fin 100)"

text \<open>The first loop: the swing of the single day \<open>i\<close>, if it passes.\<close>

definition singleDayAt ::
  "PricePoint list \<Rightarrow> real \<Rightarrow> DirectionFilter option \<Rightarrow> nat \<Rightarrow> SwingResult list" where
  "singleDayAt prices absThreshold direction i =
     (let prev = prices ! (i - 1); curr = prices ! i;
          changePct = changePctOf (closePrice prev) (closePrice curr)
      in if jge (jabs changePct) (Fin absThreshold)
         then
           let swingDirection = (if jgt changePct (Fin 0) then Up else Down)
           in if passesFilter direction swingDirection
              then [\<lparr>sw_startDate = pp_date prev, sw_endDate = pp_date curr,
                     sw_startPrice = closePrice prev, sw_endPrice = closePrice curr,
                     sw_changePercent = changePct,
                     sw_changeAbsolute = closePrice curr - closePrice prev,
                     sw_durationDays = 1, sw_direction = swingDirection\<rparr>]
              else []
         else [])"

text \<open>
  The second loop. Its state is \<open>(trendStart, currentDirection, swings)\<close>; \<open>closeRun\<close> is
  what the loop pushes when the run from \<open>trendStart\<close> to \<open>i - 1\<close> ends, and \<open>trendStep\<close> is
  one iteration.
\<close>

definition closeRun ::
  "PricePoint list \<Rightarrow> real \<Rightarrow> DirectionFilter option \<Rightarrow> nat \<Rightarrow> nat \<Rightarrow> SwingResult list" where
  "closeRun prices absThreshold direction trendStart i =
     (let startPrice = prices ! trendStart; endPrice = prices ! (i - 1);
          changePct = changePctOf (closePrice startPrice) (closePrice endPrice)
      in if jge (jabs changePct) (Fin absThreshold)
         then
           let swingDirection = (if jgt changePct (Fin 0) then Up else Down)
           in if passesFilter direction swingDirection
              then
                let durationDays = differenceInDays (pp_date endPrice) (pp_date startPrice)
                in if durationDays > 1
                   then [\<lparr>sw_startDate = pp_date startPrice, sw_endDate = pp_date endPrice,
                          sw_startPrice = closePrice startPrice,
                          sw_endPrice = closePrice endPrice,
                          sw_changePercent = changePct,
                          sw_changeAbsolute = closePrice endPrice - closePrice startPrice,
                          sw_durationDays = durationDays, sw_direction = swingDirection\<rparr>]
                   else []
              else []
         else [])"

definition trendStep ::
  "PricePoint list \<Rightarrow> real \<Rightarrow> DirectionFilter option
     \<Rightarrow> nat \<times> SwingDirection option \<times> SwingResult list \<Rightarrow> nat
     \<Rightarrow> nat \<times> SwingDirection option \<times> SwingResult list" where
  "trendStep prices absThreshold direction st i =
     (case st of (trendStart, currentDirection, swings) \<Rightarrow>
        let prev = prices ! (i - 1); curr = prices ! i;
            dayDirection = (if closePrice curr > closePrice prev then Up else Down)
        in (case currentDirection of
              None \<Rightarrow> (trendStart, Some dayDirection, swings)
            | Some current \<Rightarrow>
                if dayDirection \<noteq> current
                then (i - 1, Some dayDirection,
                      swings @ closeRun prices absThreshold direction trendStart i)
                else (trendStart, currentDirection, swings)))"

definition multiDaySwings ::
  "PricePoint list \<Rightarrow> real \<Rightarrow> DirectionFilter option \<Rightarrow> SwingResult list \<Rightarrow> SwingResult list" where
  "multiDaySwings prices absThreshold direction swings =
     snd (snd (foldl (trendStep prices absThreshold direction) (0, None, swings)
                     [1 ..< length prices]))"

text \<open>The final stable sort, with comparator \<open>|b.changePercent| - |a.changePercent|\<close>.\<close>

fun insertByChange :: "SwingResult \<Rightarrow> SwingResult list \<Rightarrow> SwingResult list" where
  "insertByChange a [] = [a]"
| "insertByChange a (b # bs) =
     (if jgt (jsub (jabs (sw_changePercent b)) (jabs (sw_changePercent a))) (Fin 0)
      then b # insertByChange a bs
      else a # b # bs)"

definition findSwings ::
  "PricePoint list \<Rightarrow> real \<Rightarrow> Date option \<Rightarrow> Date option \<Rightarrow> DirectionFilter option
     \<Rightarrow> SwingResult list" where
  "findSwings tbl minSwingPercent startDate endDate direction =
     (let prices = findManyPrices tbl startDate endDate;
          absThreshold = \<bar>minSwingPercent\<bar>;
          singles = concat (map (singleDayAt prices absThreshold direction)
                                [1 ..< length prices]);
          swings = multiDaySwings prices absThreshold direction singles
      in foldr insertByChange swings [])"

text \<open>
  An example series: two rising days, a flat day, two more rising days and a falling day,
  on consecutive dates.
\<close>

definition plateau_closes :: "real list" where
  "plateau_closes = [100, 103, 106, 106, 109, 112, 110]"

definition plateau_point :: "nat \<Rightarrow> PricePoint" where
  "plateau_point i =
     \<lparr>pp_id = replicate i CHR ''s'', pp_date = int i * msPerDay,
      closePrice = plateau_closes ! i,
      dailyChangePct = None, volatility7d = None, sma20 = None, sma50 = None, sma200 = None\<rparr>"

definition plateau_series :: "PricePoint list" where
  "plateau_series = map plateau_point [0 ..< 7]"

definition first_leg :: SwingResult where
  "first_leg =
     \<lparr>sw_startDate = 0, sw_endDate = 2 * msPerDay, sw_startPrice = 100, sw_endPrice = 106,
      sw_changePercent = Fin 6, sw_changeAbsolute = 6, sw_durationDays = 2,
      sw_direction = Up\<rparr>"

definition second_leg :: SwingResult where
  "second_leg =
     \<lparr>sw_startDate = 3 * msPerDay, sw_endDate = 5 * msPerDay, sw_startPrice = 106,
      sw_endPrice = 112, sw_changePercent = Fin (300 / 53), sw_changeAbsolute = 6,
      sw_durationDays = 2, sw_direction = Up\<rparr>"

text \<open>
  For the proofs: the list of updates that a run issues, as pairs of row id and derived
  values, and the effect of a list of updates on one row.
\<close>

definition updatesOf :: "GoldPriceRow list \<Rightarrow> (string \<times> DerivedMetrics) list" where
  "updatesOf tbl =
     (let prices = sort_key gp_date tbl;
          closes = map gp_closePrice prices
      in map (\<lambda>i. (gp_id (prices ! i), metricsAt closes i)) [0 ..< length prices])"

fun rowUpdate :: "(string \<times> DerivedMetrics) list \<Rightarrow> GoldPriceRow \<Rightarrow> GoldPriceRow" where
  "rowUpdate [] r = r"
| "rowUpdate (u # us) r = rowUpdate us (if gp_id r = fst u then setMetrics (snd u) r else r)"


chapter \<open>Verified properties\<close>

section \<open>Properties of the news quantifier\<close>

lemma analyze_confidence_bounds:
  "0 < an_confidence (analyzeArticleImpact a) \<and> an_confidence (analyzeArticleImpact a) \<le> 0.9"
proof -
  define b :: int where "b = int (length (filter (\<lambda>keyword. includes_str
    (toLowerCase (na_title a @ '' '' @ na_text a)) (toLowerCase keyword)) SENTIMENT_KEYWORDS_bullish))"
  define d :: int where "d = int (length (filter (\<lambda>keyword. includes_str
    (toLowerCase (na_title a @ '' '' @ na_text a)) (toLowerCase keyword)) SENTIMENT_KEYWORDS_bearish))"
  define c :: real where "c = min 0.9 (0.3 + of_int (b + d) * 0.1)"
  have n0: "0 \<le> b + d" by (simp add: b_def d_def)
  have r: "(0::real) \<le> of_int (b + d)" using n0 by (simp only: of_int_0_le_iff)
  have "(0::real) < 0.3 + of_int (b + d) * 0.1"
    by (rule add_pos_nonneg, simp, rule mult_nonneg_nonneg [OF r], simp)
  then have c: "0 < c" unfolding c_def by (simp only: min_less_iff_conj, simp)
  have c2: "c \<le> 0.9" by (simp add: c_def min_def)
  have c3: "0 < c * 0.5" "c * 0.5 \<le> 0.9" using c c2 by auto
  have eq: "an_confidence (analyzeArticleImpact a) =
     (if b + d = 0 then 0.3 else if b - d > 0 then c else if b - d < 0 then c else c * 0.5)"
    unfolding analyzeArticleImpact_def Let_def b_def[symmetric] d_def[symmetric] c_def[symmetric]
    by simp
  show ?thesis
    unfolding eq using c c2 c3 by simp
qed

lemma clamp_Fin:
  "\<exists>r. jmax (Fin (- 100)) (jmin (Fin 100) (Fin x)) = Fin r \<and> - 100 \<le> r \<and> r \<le> 100"
  by auto


lemma scoreArticle_category:
  "qr_impactCategory (scoreArticle a p) = orGeneral (na_category a)"
  unfolding scoreArticle_def Let_def
  by (simp only: QuantificationResult.select_convs)

lemma categoryWeights_own:
  "category \<notin> set objectPrototypeMembers \<Longrightarrow> \<exists>w. categoryWeights category = Some w"
  by (simp add: categoryWeights_def split: option.splits)

lemma scoreArticle_impact_finite:
  assumes "qr_impactCategory (scoreArticle a p) \<notin> set objectPrototypeMembers"
      and "volatility7d p = None \<or> (\<exists>v. volatility7d p = Some (Fin v))"
  shows "\<exists>r. qr_impactScore (scoreArticle a p) = Fin r \<and> - 100 \<le> r \<and> r \<le> 100"
proof -
  obtain w where w: "categoryWeights (orGeneral (na_category a)) = Some w"
    using categoryWeights_own assms(1) unfolding scoreArticle_category by blast
  have b: "baseImpactOf (Some w) = Fin (baseImpact w)"
      "volatilityMultiplierOf (Some w) = Fin (volatilityMultiplier w)"
    by (simp_all add: baseImpactOf_def volatilityMultiplierOf_def)
  have "\<exists>x. qr_impactScore (scoreArticle a p) = jmax (Fin (- 100)) (jmin (Fin 100) (Fin x))"
    unfolding scoreArticle_def Let_def w b
    apply (simp only: QuantificationResult.select_convs)
    using assms(2)
    apply (cases "dailyChangePct p")
     apply (auto simp del: jmax.simps jmin.simps)
    done
  then obtain x where "qr_impactScore (scoreArticle a p) = jmax (Fin (- 100)) (jmin (Fin 100) (Fin x))"
    by blast
  then show ?thesis using clamp_Fin [of x] by simp
qed


lemma scoreArticle_lagDays:
  "qr_lagDays (scoreArticle a p) = differenceInDays (pp_date p) (na_publishedAt a)"
  unfolding scoreArticle_def Let_def
  by (simp only: QuantificationResult.select_convs)

lemma scoreArticle_confidenceScore:
  "qr_confidenceScore (scoreArticle a p) =
     an_confidence (analyzeArticleImpact a)
       * max 0.2 (1 - (of_int (differenceInDays (pp_date p) (na_publishedAt a)) * 0.15))"
  unfolding scoreArticle_def Let_def
  by (simp only: QuantificationResult.select_convs)

lemma scoreArticle_confidence_nonneg: "0 \<le> qr_confidenceScore (scoreArticle a p)"
proof -
  have "0 < an_confidence (analyzeArticleImpact a)"
    using analyze_confidence_bounds by blast
  moreover have "(0::real) \<le>
      max 0.2 (1 - (of_int (differenceInDays (pp_date p) (na_publishedAt a)) * 0.15))"
    by simp
  ultimately show ?thesis
    unfolding scoreArticle_confidenceScore by (intro mult_nonneg_nonneg) auto
qed

lemma scoreArticle_confidence_le:
  assumes "0 \<le> qr_lagDays (scoreArticle a p)"
  shows "qr_confidenceScore (scoreArticle a p) \<le> 1"
proof -
  let ?l = "differenceInDays (pp_date p) (na_publishedAt a)"
  let ?d = "max 0.2 (1 - (of_int ?l * 0.15)) :: real"
  have l: "0 \<le> ?l" using assms by (simp add: scoreArticle_lagDays)
  have d1: "?d \<le> 1" using l by simp
  have d0: "0 \<le> ?d" by simp
  have c: "an_confidence (analyzeArticleImpact a) \<le> 0.9" "0 < an_confidence (analyzeArticleImpact a)"
    using analyze_confidence_bounds by blast+
  have "an_confidence (analyzeArticleImpact a) * ?d \<le> 0.9 * 1"
    by (rule mult_mono) (use c d1 d0 in auto)
  then show ?thesis unfolding scoreArticle_confidenceScore by simp
qed

lemma jmul_NaN_right: "jmul x NaN = NaN"
  by (cases x) auto

lemma scoreArticle_inherited:
  assumes "categoryWeights (orGeneral (na_category a)) = None"
      and "an_sentiment (analyzeArticleImpact a) \<noteq> neutral"
  shows "qr_impactScore (scoreArticle a p) = NaN"
proof -
  have b: "baseImpactOf None = NaN" "volatilityMultiplierOf None = NaN"
    by (simp_all add: baseImpactOf_def volatilityMultiplierOf_def)
  show ?thesis
    unfolding scoreArticle_def Let_def assms(1) b
    apply (simp only: QuantificationResult.select_convs)
    using assms(2)
    apply (cases "an_sentiment (analyzeArticleImpact a)")
      apply (auto simp: jmul_NaN_right split: option.splits)
    done
qed

lemma scoreArticle_nan_volatility:
  assumes "dailyChangePct p = Some pct" and "volatility7d p = Some NaN"
  shows "qr_impactScore (scoreArticle a p) = NaN"
  unfolding scoreArticle_def Let_def
  by (simp only: QuantificationResult.select_convs)
     (simp add: assms jmul_NaN_right)

lemma late_article_confidence: "an_confidence (analyzeArticleImpact late_article) = 0.4"
  by (simp add: analyzeArticleImpact_def late_article_def toLowerCase_def lowerChar_def
      SENTIMENT_KEYWORDS_bullish_def SENTIMENT_KEYWORDS_bearish_def Let_def)

lemma inherited_article_sentiment:
  "an_sentiment (analyzeArticleImpact inherited_article) = bullish"
  by (simp add: analyzeArticleImpact_def inherited_article_def toLowerCase_def lowerChar_def
      SENTIMENT_KEYWORDS_bullish_def SENTIMENT_KEYWORDS_bearish_def Let_def)

lemma inherited_article_weights:
  "categoryWeights (orGeneral (na_category inherited_article)) = None"
  by (simp add: inherited_article_def orGeneral_def categoryWeights_def CATEGORY_WEIGHTS_def
      objectPrototypeMembers_def)

text \<open>
  C1, as stated, fails in three ways. The article \<open>late_article\<close> is published twenty
  days after the price date, so \<open>lagDays = -20\<close>, the decay factor is
  \<open>max 0.2 (1 + 3) = 4\<close>, and the returned confidence score is \<open>0.4 * 4 = 1.6\<close>, above 1.
  The article \<open>inherited_article\<close> has the category \<open>constructor\<close>, for which the weight
  lookup returns a member inherited from \<open>Object.prototype\<close>: its impact score is \<open>NaN\<close>,
  which the clamp keeps. And against a price whose stored seven-day volatility is
  \<open>NaN\<close> the impact score of any article is \<open>NaN\<close>.
\<close>

theorem C1_bounds_counterexample:
  "calculateImpactScore [late_article] [day0_price] ''a1'' ''p1''
     = Inr (scoreArticle late_article day0_price)
   \<and> qr_lagDays (scoreArticle late_article day0_price) = - 20
   \<and> qr_confidenceScore (scoreArticle late_article day0_price) = 1.6
   \<and> \<not> qr_confidenceScore (scoreArticle late_article day0_price) \<le> 1
   \<and> calculateImpactScore [inherited_article] [day0_price] ''a3'' ''p1''
     = Inr (scoreArticle inherited_article day0_price)
   \<and> qr_lagDays (scoreArticle inherited_article day0_price) = 2
   \<and> qr_impactScore (scoreArticle inherited_article day0_price) = NaN
   \<and> calculateImpactScore [early_article] [nan_price] ''a2'' ''p2''
     = Inr (scoreArticle early_article nan_price)
   \<and> qr_lagDays (scoreArticle early_article nan_price) = 2
   \<and> qr_impactScore (scoreArticle early_article nan_price) = NaN"
proof -
  have "calculateImpactScore [late_article] [day0_price] ''a1'' ''p1''
     = Inr (scoreArticle late_article day0_price)"
    by (simp add: calculateImpactScore_def findArticle_def findPrice_def late_article_def
        day0_price_def)
  moreover have "qr_lagDays (scoreArticle late_article day0_price) = - 20"
    by (simp add: scoreArticle_lagDays differenceInDays_def late_article_def day0_price_def
        msPerDay_def)
  moreover have "differenceInDays (pp_date day0_price) (na_publishedAt late_article) = - 20"
    by (simp add: differenceInDays_def late_article_def day0_price_def msPerDay_def)
  then have "qr_confidenceScore (scoreArticle late_article day0_price) = 1.6"
    by (simp add: scoreArticle_confidenceScore late_article_confidence)
  moreover have "calculateImpactScore [inherited_article] [day0_price] ''a3'' ''p1''
     = Inr (scoreArticle inherited_article day0_price)"
    by (simp add: calculateImpactScore_def findArticle_def findPrice_def inherited_article_def
        day0_price_def)
  moreover have "qr_lagDays (scoreArticle inherited_article day0_price) = 2"
    by (simp add: scoreArticle_lagDays differenceInDays_def inherited_article_def
        day0_price_def msPerDay_def)
  moreover have "qr_impactScore (scoreArticle inherited_article day0_price) = NaN"
    by (rule scoreArticle_inherited [OF inherited_article_weights])
       (simp add: inherited_article_sentiment)
  moreover have "calculateImpactScore [early_article] [nan_price] ''a2'' ''p2''
     = Inr (scoreArticle early_article nan_price)"
    by (simp add: calculateImpactScore_def findArticle_def findPrice_def early_article_def
        nan_price_def)
  moreover have "qr_lagDays (scoreArticle early_article nan_price) = 2"
    by (simp add: scoreArticle_lagDays differenceInDays_def early_article_def
        nan_price_def msPerDay_def)
  moreover have "qr_impactScore (scoreArticle early_article nan_price) = NaN"
    by (rule scoreArticle_nan_volatility [where pct = 1]) (simp_all add: nan_price_def)
  ultimately show ?thesis by simp
qed

text \<open>
  C1 (amended): for every article/price pair that \<open>calculateImpactScore\<close> accepts, the
  confidence score is at least 0, whatever the lag, and at most 1 when \<open>lagDays\<close> is not
  negative; and the impact score is a number in [-100, 100], whatever the lag, when the
  category of the article is not the name of a member inherited from \<open>Object.prototype\<close>
  and the stored \<open>volatility7d\<close> of the price is null or finite.
\<close>

theorem C1_score_bounds:
  assumes "calculateImpactScore articles prices aid pid = Inr r"
      and "findPrice prices pid = Some p"
  shows "0 \<le> qr_confidenceScore r
         \<and> (0 \<le> qr_lagDays r \<longrightarrow> qr_confidenceScore r \<le> 1)
         \<and> (qr_impactCategory r \<notin> set objectPrototypeMembers
              \<and> (volatility7d p = None \<or> (\<exists>v. volatility7d p = Some (Fin v)))
            \<longrightarrow> (\<exists>x. qr_impactScore r = Fin x \<and> - 100 \<le> x \<and> x \<le> 100))"
proof -
  from assms obtain a where r: "r = scoreArticle a p"
    by (auto simp: calculateImpactScore_def split: option.splits)
  show ?thesis
    unfolding r
    using scoreArticle_confidence_nonneg [of a p]
      scoreArticle_confidence_le [of a p] scoreArticle_impact_finite [of a p]
    by blast
qed

theorem C1_score_bounds_witness:
  "calculateImpactScore [early_article] [calm_price] ''a2'' ''p3''
     = Inr (scoreArticle early_article calm_price)
   \<and> findPrice [calm_price] ''p3'' = Some calm_price
   \<and> qr_lagDays (scoreArticle early_article calm_price) = 2
   \<and> qr_impactCategory (scoreArticle early_article calm_price) = ''interest_rates''
   \<and> ''interest_rates'' \<notin> set objectPrototypeMembers
   \<and> volatility7d calm_price = Some (Fin 2)
   \<and> 0 \<le> qr_confidenceScore (scoreArticle early_article calm_price)
   \<and> qr_confidenceScore (scoreArticle early_article calm_price) \<le> 1
   \<and> (\<exists>x. qr_impactScore (scoreArticle early_article calm_price) = Fin x
          \<and> - 100 \<le> x \<and> x \<le> 100)"
proof -
  have h: "calculateImpactScore [early_article] [calm_price] ''a2'' ''p3''
     = Inr (scoreArticle early_article calm_price)"
    by (simp add: calculateImpactScore_def findArticle_def findPrice_def early_article_def
        calm_price_def)
  have f: "findPrice [calm_price] ''p3'' = Some calm_price"
    by (simp add: findPrice_def calm_price_def)
  have l: "qr_lagDays (scoreArticle early_article calm_price) = 2"
    by (simp add: scoreArticle_lagDays differenceInDays_def early_article_def calm_price_def
        msPerDay_def)
  have c: "qr_impactCategory (scoreArticle early_article calm_price) = ''interest_rates''"
    by (simp add: scoreArticle_category early_article_def orGeneral_def)
  have m: "''interest_rates'' \<notin> set objectPrototypeMembers"
    by (simp add: objectPrototypeMembers_def)
  have v: "volatility7d calm_price = Some (Fin 2)"
    by (simp add: calm_price_def)
  show ?thesis
    using C1_score_bounds [OF h f] h f l c m v by simp
qed

section \<open>Properties of the feedback loop\<close>

lemma sameExceptComputed_refl: "sameExceptComputed q q"
  by (simp add: sameExceptComputed_def)

lemma sameExceptComputed_trans:
  "sameExceptComputed q q' \<Longrightarrow> sameExceptComputed q' q'' \<Longrightarrow> sameExceptComputed q q''"
  unfolding sameExceptComputed_def
  by (cases q, cases q', cases q'') simp

lemma sameExceptComputed_applyUpdate: "sameExceptComputed q (applyUpdate r q)"
  by (simp add: sameExceptComputed_def applyUpdate_def)

lemma sameExceptComputed_human:
  "sameExceptComputed q q' \<Longrightarrow>
     nq_id q' = nq_id q \<and> nq_newsArticleId q' = nq_newsArticleId q
     \<and> nq_goldPriceId q' = nq_goldPriceId q
     \<and> nq_humanVerified q' = nq_humanVerified q \<and> nq_humanScore q' = nq_humanScore q
     \<and> nq_humanFeedback q' = nq_humanFeedback q \<and> nq_verifiedAt q' = nq_verifiedAt q
     \<and> nq_verifiedBy q' = nq_verifiedBy q \<and> nq_createdAt q' = nq_createdAt q"
  unfolding sameExceptComputed_def
  by (cases q, cases q') simp

lemma upsert_length: "length tbl \<le> length (upsert genId now a p r tbl)"
  by (simp add: upsert_def split: option.splits)

lemma upsert_nth:
  "i < length tbl \<Longrightarrow> sameExceptComputed (tbl ! i) (upsert genId now a p r tbl ! i)"
  by (simp add: upsert_def nth_append sameExceptComputed_refl sameExceptComputed_applyUpdate
      split: option.splits)

lemma quantifyPair_frame:
  assumes "quantifyPair genId now articles prices price st article = st'"
  shows "length (fst st) \<le> length (fst st')
         \<and> (\<forall>i < length (fst st). sameExceptComputed (fst st ! i) (fst st' ! i))"
  using assms upsert_length upsert_nth
  by (auto simp: quantifyPair_def sameExceptComputed_refl split: prod.splits sum.splits)

lemma inner_loop_frame:
  "length (fst st) \<le> length (fst (foldl (quantifyPair genId now articles prices price) st as))
   \<and> (\<forall>i < length (fst st). sameExceptComputed (fst st ! i)
         (fst (foldl (quantifyPair genId now articles prices price) st as) ! i))"
proof (induction as arbitrary: st)
  case Nil
  then show ?case by (simp add: sameExceptComputed_refl)
next
  case (Cons a rest)
  let ?G = "quantifyPair genId now articles prices price"
  let ?st1 = "quantifyPair genId now articles prices price st a"
  have s1: "length (fst st) \<le> length (fst ?st1)"
    "\<And>i. i < length (fst st) \<Longrightarrow> sameExceptComputed (fst st ! i) (fst ?st1 ! i)"
    using quantifyPair_frame [where st = st and article = a and price = price
        and genId = genId and now = now and articles = articles and prices = prices, OF refl]
    by auto
  have s2: "length (fst ?st1) \<le> length (fst (foldl ?G ?st1 rest))"
    "\<And>i. i < length (fst ?st1) \<Longrightarrow> sameExceptComputed (fst ?st1 ! i)
         (fst (foldl ?G ?st1 rest) ! i)"
    using Cons.IH [of ?st1] by auto
  have "sameExceptComputed (fst st ! i) (fst (foldl ?G ?st1 rest) ! i)"
    if "i < length (fst st)" for i
    using that s1 s2 sameExceptComputed_trans [of "fst st ! i" "fst ?st1 ! i"] by simp
  then show ?case
    using s1(1) s2(1) by simp
qed

lemma outer_loop_frame:
  "length (fst st) \<le> length (fst (foldl (\<lambda>st price.
                  foldl (quantifyPair genId now articles allPrices price) st
                        (articlesFor articles price maxLagDays)) st ps))
   \<and> (\<forall>i < length (fst st). sameExceptComputed (fst st ! i)
         (fst (foldl (\<lambda>st price.
                  foldl (quantifyPair genId now articles allPrices price) st
                        (articlesFor articles price maxLagDays)) st ps) ! i))"
proof (induction ps arbitrary: st)
  case Nil
  then show ?case by (simp add: sameExceptComputed_refl)
next
  case (Cons p rest)
  let ?G = "(\<lambda>st price.
                  foldl (quantifyPair genId now articles allPrices price) st
                        (articlesFor articles price maxLagDays))"
  let ?st1 = "?G st p"
  have s1: "length (fst st) \<le> length (fst ?st1)"
    "\<And>i. i < length (fst st) \<Longrightarrow> sameExceptComputed (fst st ! i) (fst ?st1 ! i)"
    using inner_loop_frame [where st = st and price = p
        and as = "articlesFor articles p maxLagDays"] by auto
  have s2: "length (fst ?st1) \<le> length (fst (foldl ?G ?st1 rest))"
    "\<And>i. i < length (fst ?st1) \<Longrightarrow> sameExceptComputed (fst ?st1 ! i) (fst (foldl ?G ?st1 rest) ! i)"
    using Cons.IH [of ?st1] by auto
  have "sameExceptComputed (fst st ! i) (fst (foldl ?G ?st1 rest) ! i)"
    if "i < length (fst st)" for i
    using that s1 s2 sameExceptComputed_trans [of "fst st ! i" "fst ?st1 ! i"] by simp
  then show ?case
    using s1(1) s2(1) by simp
qed

lemma quantifyNewsForPeriod_frame:
  assumes "quantifyNewsForPeriod genId now articles allPrices tbl startDate endDate options
             = (tbl', quantified, errors)"
      and "i < length tbl"
  shows "i < length tbl' \<and> sameExceptComputed (tbl ! i) (tbl' ! i)"
  using assms outer_loop_frame [of "(tbl, 0, 0)" genId now articles allPrices
      "case options of None \<Rightarrow> 3 | Some d \<Rightarrow> d"
      "sort_key pp_date (filter (\<lambda>p. startDate \<le> pp_date p \<and> pp_date p \<le> endDate) allPrices)"]
  by (auto simp: quantifyNewsForPeriod_def Let_def)

lemma submitFeedback_row:
  assumes "submitFeedback now qid fb tbl = Inr tbl1" and "i < length tbl1" and "nq_id (tbl1 ! i) = qid"
  shows "nq_humanVerified (tbl1 ! i) \<and> nq_humanScore (tbl1 ! i) = Some (fb_humanScore fb)"
proof -
  let ?f = "\<lambda>q. if nq_id q = qid then applyFeedback now fb q else q"
  have t: "tbl1 = map ?f tbl"
    using assms(1) by (auto simp: submitFeedback_def split: option.splits)
  have i: "i < length tbl" using assms(2) t by simp
  have r: "tbl1 ! i = ?f (tbl ! i)" using t i by simp
  have "nq_id (?f (tbl ! i)) = nq_id (tbl ! i)" by (simp add: applyFeedback_def)
  then have "nq_id (tbl ! i) = qid" using assms(3) r by simp
  then show ?thesis using r by (simp add: applyFeedback_def)
qed

text \<open>
  C2: once \<open>submitFeedback\<close> has verified a quantification row, a later run of
  \<open>quantifyNewsForPeriod\<close> (which recomputes and upserts pairs of article and price)
  leaves the row in place with \<open>humanVerified\<close> true and \<open>humanScore\<close> as submitted;
  the row differs from its state before the run at most in \<open>impactScore\<close>,
  \<open>confidenceScore\<close>, \<open>lagDays\<close>, \<open>impactCategory\<close> and \<open>reasoning\<close>.
\<close>

theorem C2_feedback_preserved:
  assumes "submitFeedback now qid fb tbl = Inr tbl1"
      and "quantifyNewsForPeriod genId now' articles allPrices tbl1 startDate endDate options
             = (tbl2, quantified, errors)"
      and "i < length tbl1" and "nq_id (tbl1 ! i) = qid"
  shows "i < length tbl2 \<and> nq_id (tbl2 ! i) = qid
         \<and> nq_humanVerified (tbl2 ! i)
         \<and> nq_humanScore (tbl2 ! i) = Some (fb_humanScore fb)
         \<and> sameExceptComputed (tbl1 ! i) (tbl2 ! i)"
proof -
  have f: "i < length tbl2" "sameExceptComputed (tbl1 ! i) (tbl2 ! i)"
    using quantifyNewsForPeriod_frame [OF assms(2) assms(3)] by auto
  have h: "nq_humanVerified (tbl1 ! i)" "nq_humanScore (tbl1 ! i) = Some (fb_humanScore fb)"
    using submitFeedback_row [OF assms(1) assms(3) assms(4)] by auto
  show ?thesis
    using f h assms(4) sameExceptComputed_human [OF f(2)] by simp
qed


lemma calc_early:
  "calculateImpactScore [early_article] [day0_price] ''a2'' ''p1''
     = Inr (scoreArticle early_article day0_price)"
  by (simp add: calculateImpactScore_def findArticle_def findPrice_def early_article_def
      day0_price_def)

lemma submit_stale:
  "submitFeedback 5 ''q1'' one_feedback [stale_row] = Inr [applyFeedback 5 one_feedback stale_row]"
  by (simp add: submitFeedback_def stale_row_def)

lemma quantify_stale:
  "quantifyNewsForPeriod (\<lambda>t. ''q2'') 9 [early_article] [day0_price]
       [applyFeedback 5 one_feedback stale_row] (- msPerDay) msPerDay None
     = ([applyUpdate (scoreArticle early_article day0_price)
           (applyFeedback 5 one_feedback stale_row)], 1, 0)"
proof -
  have p: "pp_date day0_price = 0" "pp_id day0_price = ''p1''" by (simp_all add: day0_price_def)
  have a: "na_publishedAt early_article = - 2 * msPerDay" "na_id early_article = ''a2''"
    by (simp_all add: early_article_def)
  have m: "matchesPair ''a2'' ''p1'' (applyFeedback 5 one_feedback stale_row)"
    by (simp add: matchesPair_def applyFeedback_def stale_row_def)
  show ?thesis
    by (simp add: quantifyNewsForPeriod_def articlesFor_def quantifyPair_def upsert_def
        subDays_def p a m calc_early msPerDay_def)
qed

theorem C2_feedback_preserved_witness:
  "submitFeedback 5 ''q1'' one_feedback [stale_row] = Inr [applyFeedback 5 one_feedback stale_row]
   \<and> quantifyNewsForPeriod (\<lambda>t. ''q2'') 9 [early_article] [day0_price]
       [applyFeedback 5 one_feedback stale_row] (- msPerDay) msPerDay None
     = ([applyUpdate (scoreArticle early_article day0_price)
           (applyFeedback 5 one_feedback stale_row)], 1, 0)
   \<and> nq_id (applyUpdate (scoreArticle early_article day0_price)
           (applyFeedback 5 one_feedback stale_row)) = ''q1''
   \<and> nq_humanVerified (applyUpdate (scoreArticle early_article day0_price)
           (applyFeedback 5 one_feedback stale_row))
   \<and> nq_humanScore (applyUpdate (scoreArticle early_article day0_price)
           (applyFeedback 5 one_feedback stale_row)) = Some (- 40)
   \<and> nq_lagDays (applyUpdate (scoreArticle early_article day0_price)
           (applyFeedback 5 one_feedback stale_row)) = 2
   \<and> nq_lagDays stale_row = 7"
proof -
  have i: "(0::nat) < length [applyFeedback 5 one_feedback stale_row]" by simp
  have q: "nq_id ([applyFeedback 5 one_feedback stale_row] ! 0) = ''q1''"
    by (simp add: applyFeedback_def stale_row_def)
  have l: "nq_lagDays (applyUpdate (scoreArticle early_article day0_price)
           (applyFeedback 5 one_feedback stale_row)) = 2"
    by (simp add: applyUpdate_def scoreArticle_lagDays differenceInDays_def early_article_def
        day0_price_def msPerDay_def)
  have s: "fb_humanScore one_feedback = - 40" by (simp add: one_feedback_def)
  show ?thesis
    using C2_feedback_preserved [OF submit_stale quantify_stale i q] submit_stale quantify_stale l s
    by (simp add: stale_row_def)
qed

section \<open>Properties of the pattern detector\<close>

lemma jpos_cases: "jlt (Fin 0) x \<longleftrightarrow> x = PInf \<or> (\<exists>r. x = Fin r \<and> 0 < r)"
  by (cases x) auto

lemma jpos_mul: "jlt (Fin 0) x \<Longrightarrow> 0 < c \<Longrightarrow> jlt (Fin 0) (jmul x (Fin c))"
  by (cases x) (auto simp: inf_of_sign_def)

lemma jpos_div: "jlt (Fin 0) x \<Longrightarrow> 0 < c \<Longrightarrow> jlt (Fin 0) (jdiv x (Fin c))"
  by (cases x) (auto simp: inf_of_sign_def)

lemma jpos_add: "jlt (Fin 0) x \<Longrightarrow> 0 \<le> a \<Longrightarrow> jlt (Fin 0) (jadd (Fin a) x)"
  by (cases x) auto

lemma jpos_quot: "0 < a \<Longrightarrow> 0 \<le> b \<Longrightarrow> jlt (Fin 0) (jdiv (Fin a) (Fin b))"
  by (auto simp: inf_of_sign_def)

lemma jmin_cap:
  "jlt (Fin 0) x \<Longrightarrow> 0 < c \<Longrightarrow> \<exists>r. jmin (Fin c) x = Fin r \<and> 0 < r \<and> r \<le> c"
  by (cases x) auto

lemma jge_pos: "jge x (Fin c) \<Longrightarrow> 0 < c \<Longrightarrow> jlt (Fin 0) x"
  by (cases x) (auto simp: jge_def)

lemma mathMax_Fin: "xs \<noteq> [] \<Longrightarrow> mathMax xs = Fin (Max (set xs))"
proof (induction xs)
  case Nil
  then show ?case by simp
next
  case (Cons x xs)
  show ?case
  proof (cases "xs = []")
    case True
    then show ?thesis by simp
  next
    case False
    then have "mathMax xs = Fin (Max (set xs))" using Cons.IH by simp
    then have "mathMax (x # xs) = Fin (max x (Max (set xs)))" by (simp add: max_def)
    moreover have "Max (set (x # xs)) = max x (Max (set xs))" using False by simp
    ultimately show ?thesis by simp
  qed
qed

lemma mathMin_Fin: "xs \<noteq> [] \<Longrightarrow> mathMin xs = Fin (Min (set xs))"
proof (induction xs)
  case Nil
  then show ?case by simp
next
  case (Cons x xs)
  show ?case
  proof (cases "xs = []")
    case True
    then show ?thesis by simp
  next
    case False
    then have "mathMin xs = Fin (Min (set xs))" using Cons.IH by simp
    then have "mathMin (x # xs) = Fin (min x (Min (set xs)))" by (simp add: min_def)
    moreover have "Min (set (x # xs)) = min x (Min (set xs))" using False by simp
    ultimately show ?thesis by simp
  qed
qed

lemma set_insertByConfidence: "set (insertByConfidence a bs) = insert a (set bs)"
  by (induction bs) auto

lemma set_sortByConfidence: "set (sortByConfidence xs) = set xs"
  by (induction xs) (auto simp: sortByConfidence_def set_insertByConfidence)

lemma window_nonempty:
  assumes "lookback \<le> i" and "i < length prices"
  shows "map closePrice (slice (i - lookback) i prices) \<noteq> []"
  using assms by (simp add: slice_def lookback_def)

lemma windowHigh_Fin:
  assumes "lookback \<le> i" and "i < length prices"
  shows "windowHigh prices i = Fin (Max (closePrice ` set (slice (i - lookback) i prices)))"
  using mathMax_Fin [OF window_nonempty [OF assms]] by (simp add: windowHigh_def)

lemma windowLow_Fin:
  assumes "lookback \<le> i" and "i < length prices"
  shows "windowLow prices i = Fin (Min (closePrice ` set (slice (i - lookback) i prices)))"
  using mathMin_Fin [OF window_nonempty [OF assms]] by (simp add: windowLow_def)

lemma window_range_nonneg:
  assumes "lookback \<le> i" and "i < length prices"
  shows "\<exists>h l. windowHigh prices i = Fin h \<and> windowLow prices i = Fin l \<and> l \<le> h"
proof -
  let ?S = "closePrice ` set (slice (i - lookback) i prices)"
  have ne: "?S \<noteq> {}" using window_nonempty [OF assms] by auto
  have "Min ?S \<le> Max ?S" using ne by (simp add: Min_le_iff)
  then show ?thesis using windowHigh_Fin [OF assms] windowLow_Fin [OF assms] by blast
qed


lemma strength_fields:
  assumes "0 < a" and "0 \<le> b"
  defines "bs \<equiv> jmul (jdiv (Fin a) (Fin b)) (Fin 100)"
  shows "\<exists>c. jmin (Fin 0.9) (jadd (Fin 0.5) (jdiv bs (Fin 100))) = Fin c \<and> 0 < c \<and> c \<le> 0.9"
    and "\<exists>m. jmin (Fin 8) (jadd (Fin 2) (jdiv bs (Fin 10))) = Fin m \<and> 0 < m \<and> m \<le> 8"
proof -
  have p: "jlt (Fin 0) bs"
    unfolding bs_def using assms(1,2) by (intro jpos_mul jpos_quot) auto
  show "\<exists>c. jmin (Fin 0.9) (jadd (Fin 0.5) (jdiv bs (Fin 100))) = Fin c \<and> 0 < c \<and> c \<le> 0.9"
    using p by (intro jmin_cap jpos_add jpos_div) auto
  show "\<exists>m. jmin (Fin 8) (jadd (Fin 2) (jdiv bs (Fin 10))) = Fin m \<and> 0 < m \<and> m \<le> 8"
    using p by (intro jmin_cap jpos_add jpos_div) auto
qed

lemma breakoutsAt_bounds:
  assumes "lookback \<le> i" and "i < length prices" and "p \<in> set (breakoutsAt prices i)"
  shows "\<exists>c m. dp_confidence p = Fin c \<and> 0 < c \<and> c \<le> 0.9
           \<and> dp_predictedMove p = Fin m \<and> \<bar>m\<bar> \<le> 8
           \<and> (dp_patternType p = ''breakout_up'' \<or> dp_patternType p = ''breakout_down'')"
proof -
  obtain h l where hl: "windowHigh prices i = Fin h" "windowLow prices i = Fin l" "l \<le> h"
    using window_range_nonneg [OF assms(1,2)] by blast
  let ?x = "closePrice (prices ! i)"
  let ?up = "jmul (jdiv (Fin (?x - h)) (Fin (h - l))) (Fin 100)"
  let ?dn = "jmul (jdiv (Fin (l - ?x)) (Fin (h - l))) (Fin 100)"
  from assms(3) consider
    (up) "h < ?x" "dp_patternType p = ''breakout_up''"
         "dp_confidence p = jmin (Fin 0.9) (jadd (Fin 0.5) (jdiv ?up (Fin 100)))"
         "dp_predictedMove p = jmin (Fin 8) (jadd (Fin 2) (jdiv ?up (Fin 10)))"
  | (down) "?x < l" "dp_patternType p = ''breakout_down''"
         "dp_confidence p = jmin (Fin 0.9) (jadd (Fin 0.5) (jdiv ?dn (Fin 100)))"
         "dp_predictedMove p = jneg (jmin (Fin 8) (jadd (Fin 2) (jdiv ?dn (Fin 10))))"
    by (auto simp: breakoutsAt_def Let_def hl jsub_def jgt_def split: option.splits if_splits)
  then show ?thesis
  proof cases
    case up
    have a: "0 < ?x - h" "0 \<le> h - l" using up(1) hl(3) by auto
    from strength_fields [OF a] obtain c m where
      "jmin (Fin 0.9) (jadd (Fin 0.5) (jdiv ?up (Fin 100))) = Fin c" "0 < c" "c \<le> 0.9"
      "jmin (Fin 8) (jadd (Fin 2) (jdiv ?up (Fin 10))) = Fin m" "0 < m" "m \<le> 8"
      by blast
    then show ?thesis using up by auto
  next
    case down
    have a: "0 < l - ?x" "0 \<le> h - l" using down(1) hl(3) by auto
    from strength_fields [OF a] obtain c m where
      "jmin (Fin 0.9) (jadd (Fin 0.5) (jdiv ?dn (Fin 100))) = Fin c" "0 < c" "c \<le> 0.9"
      "jmin (Fin 8) (jadd (Fin 2) (jdiv ?dn (Fin 10))) = Fin m" "0 < m" "m \<le> 8"
      by blast
    then show ?thesis using down by auto
  qed
qed

lemma crossAt_fields:
  assumes "p \<in> set (crossAt prices i)"
  shows "dp_confidence p = Fin 0.85
         \<and> ((dp_patternType p = ''golden_cross'' \<and> dp_predictedMove p = Fin 5)
              \<or> (dp_patternType p = ''death_cross'' \<and> dp_predictedMove p = Fin (- 5)))"
  using assms
  by (auto simp: crossAt_def Let_def split: option.splits if_splits)

lemmas jsnum_ops = jdiv.simps jmul.simps jadd.simps jmin.simps jmax.simps jneg.simps

text \<open>
  A spike is emitted only above a threshold that is a number, so only when the standard
  deviation is finite: with an \<open>Infinity\<close> or a \<open>NaN\<close> among the stored volatilities the
  threshold is \<open>NaN\<close> and no comparison with it holds.
\<close>

lemma jgt_sub_pos: "jgt a b \<Longrightarrow> jlt (Fin 0) (jsub a b)"
  by (cases a; cases b) (auto simp: jgt_def jsub_def)

lemma jpos_div_nonneg: "jlt (Fin 0) x \<Longrightarrow> 0 \<le> s \<Longrightarrow> jlt (Fin 0) (jdiv x (Fin s))"
  by (cases x) (auto simp: inf_of_sign_def)

lemma jsqrt_range: "jsqrt x = NaN \<or> jsqrt x = PInf \<or> (\<exists>s. jsqrt x = Fin s \<and> 0 \<le> s)"
  by (cases x) auto

lemma threshold_finite_deviation:
  assumes "jgt v (jadd avg (jmul (Fin 2) sd))"
      and "sd = NaN \<or> sd = PInf \<or> (\<exists>s. sd = Fin s \<and> 0 \<le> s)"
  shows "\<exists>s. sd = Fin s \<and> 0 \<le> s"
  using assms
  by (cases sd; cases avg; cases v) (auto simp: jgt_def inf_of_sign_def)

lemma spikeAt_fields:
  assumes "p \<in> set (spikeAt avg sd (jadd avg (jmul (Fin 2) sd)) price)"
      and "sd = NaN \<or> sd = PInf \<or> (\<exists>s. sd = Fin s \<and> 0 \<le> s)"
  shows "\<exists>c. dp_confidence p = Fin c \<and> 0 < c \<and> c \<le> 0.9
           \<and> dp_predictedMove p = Fin 0 \<and> dp_patternType p = ''high_volatility_spike''"
proof -
  let ?thr = "jadd avg (jmul (Fin 2) sd)"
  obtain v where v1: "volatility7d price = Some v"
    using assms(1) by (cases "volatility7d price") (auto simp: spikeAt_def)
  have v2: "jgt v ?thr"
    using assms(1) v1 by (auto simp: spikeAt_def split: if_splits)
  obtain s where s: "sd = Fin s" "0 \<le> s"
    using threshold_finite_deviation [OF v2 assms(2)] by blast
  have c: "dp_confidence p = jmin (Fin 0.9)
                     (jadd (Fin 0.5) (jmul (jdiv (jsub v ?thr) sd) (Fin 0.1)))"
    and r: "dp_predictedMove p = Fin 0" "dp_patternType p = ''high_volatility_spike''"
    using assms(1) v1 v2
    by (simp_all add: spikeAt_def del: jdiv.simps jmul.simps jadd.simps jmin.simps)
  have "jlt (Fin 0) (jmul (jdiv (jsub v ?thr) sd) (Fin 0.1))"
    unfolding s(1) using jgt_sub_pos [OF v2] s(2) unfolding s(1)
    by (intro jpos_mul jpos_div_nonneg) auto
  then have "\<exists>c. jmin (Fin 0.9)
                     (jadd (Fin 0.5) (jmul (jdiv (jsub v ?thr) sd) (Fin 0.1))) = Fin c
                \<and> 0 < c \<and> c \<le> 0.9"
    by (intro jmin_cap jpos_add) auto
  then show ?thesis using c r by auto
qed

lemma detectVolatilitySpikes_fields:
  assumes "p \<in> set (detectVolatilitySpikes prices)"
  shows "\<exists>c. dp_confidence p = Fin c \<and> 0 < c \<and> c \<le> 0.9
           \<and> dp_predictedMove p = Fin 0 \<and> dp_patternType p = ''high_volatility_spike''"
proof -
  let ?vs = "nonNull (map volatility7d prices)"
  let ?avg = "jdiv (foldl jadd (Fin 0) ?vs) (Fin (real (length ?vs)))"
  let ?sd = "jsqrt (jdiv (foldl (\<lambda>a b. jadd a (jmul (jsub b ?avg) (jsub b ?avg))) (Fin 0) ?vs)
                         (Fin (real (length ?vs))))"
  from assms obtain price where
    "p \<in> set (spikeAt ?avg ?sd (jadd ?avg (jmul (Fin 2) ?sd)) price)"
    by (auto simp: detectVolatilitySpikes_def Let_def split: if_splits
             simp del: jsnum_ops jsqrt.simps)
  then show ?thesis using spikeAt_fields jsqrt_range by blast
qed


lemma depth_fields:
  assumes "jge depth (Fin 0.03)"
  shows "\<exists>c. jmin (Fin 0.85) (jadd (Fin 0.5) (jmul depth (Fin 5))) = Fin c \<and> 0 < c \<and> c \<le> 0.85"
    and "\<exists>m. jmin (Fin 8) (jmul depth (Fin 100)) = Fin m \<and> 0 < m \<and> m \<le> 8"
proof -
  have p: "jlt (Fin 0) depth" using jge_pos [OF assms] by simp
  show "\<exists>c. jmin (Fin 0.85) (jadd (Fin 0.5) (jmul depth (Fin 5))) = Fin c \<and> 0 < c \<and> c \<le> 0.85"
    using p by (intro jmin_cap jpos_add jpos_mul) auto
  show "\<exists>m. jmin (Fin 8) (jmul depth (Fin 100)) = Fin m \<and> 0 < m \<and> m \<le> 8"
    using p by (intro jmin_cap jpos_mul) auto
qed

lemma doubleTopOf_fields:
  assumes "p \<in> set (doubleTopOf prices first second)"
  shows "\<exists>c m. dp_confidence p = Fin c \<and> 0 < c \<and> c \<le> 0.85
           \<and> dp_predictedMove p = Fin m \<and> \<bar>m\<bar> \<le> 8
           \<and> dp_patternType p = ''double_top''"
proof -
  define depth where "depth =
    jdiv (jsub (Fin ((closePrice (snd first) + closePrice (snd second)) / 2))
               (mathMin (map closePrice (slice (fst first) (fst second + 1) prices))))
         (Fin ((closePrice (snd first) + closePrice (snd second)) / 2))"
  have d: "jge depth (Fin 0.03)"
    and f: "dp_confidence p = jmin (Fin 0.85) (jadd (Fin 0.5) (jmul depth (Fin 5)))"
       "dp_predictedMove p = jneg (jmin (Fin 8) (jmul depth (Fin 100)))"
       "dp_patternType p = ''double_top''"
    using assms unfolding doubleTopOf_def Let_def depth_def [symmetric]
    by (auto split: if_splits simp del: jsnum_ops)
  from depth_fields [OF d] obtain c m where
    "jmin (Fin 0.85) (jadd (Fin 0.5) (jmul depth (Fin 5))) = Fin c" "0 < c" "c \<le> 0.85"
    "jmin (Fin 8) (jmul depth (Fin 100)) = Fin m" "0 < m" "m \<le> 8"
    by blast
  then show ?thesis using f by auto
qed

lemma doubleBottomOf_fields:
  assumes "p \<in> set (doubleBottomOf prices first second)"
  shows "\<exists>c m. dp_confidence p = Fin c \<and> 0 < c \<and> c \<le> 0.85
           \<and> dp_predictedMove p = Fin m \<and> \<bar>m\<bar> \<le> 8
           \<and> dp_patternType p = ''double_bottom''"
proof -
  define height where "height =
    jdiv (jsub (mathMax (map closePrice (slice (fst first) (fst second + 1) prices)))
               (Fin ((closePrice (snd first) + closePrice (snd second)) / 2)))
         (Fin ((closePrice (snd first) + closePrice (snd second)) / 2))"
  have d: "jge height (Fin 0.03)"
    and f: "dp_confidence p = jmin (Fin 0.85) (jadd (Fin 0.5) (jmul height (Fin 5)))"
       "dp_predictedMove p = jmin (Fin 8) (jmul height (Fin 100))"
       "dp_patternType p = ''double_bottom''"
    using assms unfolding doubleBottomOf_def Let_def height_def [symmetric]
    by (auto split: if_splits simp del: jsnum_ops)
  from depth_fields [OF d] obtain c m where
    "jmin (Fin 0.85) (jadd (Fin 0.5) (jmul height (Fin 5))) = Fin c" "0 < c" "c \<le> 0.85"
    "jmin (Fin 8) (jmul height (Fin 100)) = Fin m" "0 < m" "m \<le> 8"
    by blast
  then show ?thesis using f by auto
qed

lemma detectPatterns_members:
  assumes "p \<in> set (detectPatterns tbl startDate endDate)"
  obtains i where "p \<in> set (crossAt (findManyPrices tbl startDate endDate) i)"
  | i where "lookback \<le> i" "i < length (findManyPrices tbl startDate endDate)"
      "p \<in> set (breakoutsAt (findManyPrices tbl startDate endDate) i)"
  | "p \<in> set (detectVolatilitySpikes (findManyPrices tbl startDate endDate))"
  | first second where "p \<in> set (doubleTopOf (findManyPrices tbl startDate endDate) first second)"
  | first second where "p \<in> set (doubleBottomOf (findManyPrices tbl startDate endDate) first second)"
proof -
  let ?ps = "findManyPrices tbl startDate endDate"
  from assms have "p \<in> set (detectCrossPatterns ?ps) \<or> p \<in> set (detectBreakouts ?ps)
      \<or> p \<in> set (detectVolatilitySpikes ?ps) \<or> p \<in> set (detectDoublePatterns ?ps)"
    by (auto simp: detectPatterns_def Let_def set_sortByConfidence split: if_splits)
  then show thesis
    using that
    by (auto simp: detectCrossPatterns_def detectBreakouts_def detectDoublePatterns_def)
qed

text \<open>
  C8: every occurrence that \<open>detectPatterns\<close> returns has a finite confidence in [0, 1]
  and a finite predicted move: at most 8 in magnitude for breakouts and for double tops
  and bottoms, 5 for a golden cross and -5 for a death cross, and 0 for a volatility
  spike. This holds for every price table and every date range, also when a division
  in a detector has a zero divisor and when a stored volatility is \<open>Infinity\<close> or \<open>NaN\<close>.
\<close>

theorem C8_pattern_bounds:
  assumes "p \<in> set (detectPatterns tbl startDate endDate)"
  shows "\<exists>c m. dp_confidence p = Fin c \<and> 0 \<le> c \<and> c \<le> 1
           \<and> dp_predictedMove p = Fin m
           \<and> ((dp_patternType p \<in> {''breakout_up'', ''breakout_down'', ''double_top'',
                                      ''double_bottom''} \<and> \<bar>m\<bar> \<le> 8)
                \<or> (dp_patternType p = ''golden_cross'' \<and> m = 5)
                \<or> (dp_patternType p = ''death_cross'' \<and> m = - 5)
                \<or> (dp_patternType p = ''high_volatility_spike'' \<and> m = 0))"
  using assms
proof (cases rule: detectPatterns_members)
  case (1 i)
  from crossAt_fields [OF 1] have c: "dp_confidence p = Fin 0.85"
    and t: "(dp_patternType p = ''golden_cross'' \<and> dp_predictedMove p = Fin 5)
              \<or> (dp_patternType p = ''death_cross'' \<and> dp_predictedMove p = Fin (- 5))"
    by auto
  from t show ?thesis
  proof
    assume "dp_patternType p = ''golden_cross'' \<and> dp_predictedMove p = Fin 5"
    then show ?thesis using c by (intro exI [of _ "0.85::real"] exI [of _ "5::real"]) simp
  next
    assume "dp_patternType p = ''death_cross'' \<and> dp_predictedMove p = Fin (- 5)"
    then show ?thesis using c by (intro exI [of _ "0.85::real"] exI [of _ "- 5::real"]) simp
  qed
next
  case (2 i)
  from breakoutsAt_bounds [OF 2] obtain c m where
    "dp_confidence p = Fin c" "0 < c" "c \<le> 0.9" "dp_predictedMove p = Fin m" "\<bar>m\<bar> \<le> 8"
    "dp_patternType p = ''breakout_up'' \<or> dp_patternType p = ''breakout_down''"
    by blast
  then show ?thesis by auto
next
  case 3
  from detectVolatilitySpikes_fields [OF 3] obtain c where
    "dp_confidence p = Fin c" "0 < c" "c \<le> 0.9" "dp_predictedMove p = Fin 0"
    "dp_patternType p = ''high_volatility_spike''"
    by blast
  then show ?thesis by auto
next
  case (4 first second)
  from doubleTopOf_fields [OF 4] obtain c m where
    "dp_confidence p = Fin c" "0 < c" "c \<le> 0.85" "dp_predictedMove p = Fin m" "\<bar>m\<bar> \<le> 8"
    "dp_patternType p = ''double_top''"
    by blast
  then show ?thesis by auto
next
  case (5 first second)
  from doubleBottomOf_fields [OF 5] obtain c m where
    "dp_confidence p = Fin c" "0 < c" "c \<le> 0.85" "dp_predictedMove p = Fin m" "\<bar>m\<bar> \<le> 8"
    "dp_patternType p = ''double_bottom''"
    by blast
  then show ?thesis by auto
qed

text \<open>
  C9: when the queried series has fewer than 30 points, \<open>detectPatterns\<close> returns the
  empty sequence of occurrences; it is a value, not an error.
\<close>

theorem C9_insufficient_data:
  assumes "length (findManyPrices tbl startDate endDate) < 30"
  shows "detectPatterns tbl startDate endDate = []"
  using assms by (simp add: detectPatterns_def)


lemma jgt_Fin: "jgt (Fin a) (Fin b) \<longleftrightarrow> b < a"
  by (simp add: jgt_def)

lemma zigzag_window: "map closePrice (slice 9 29 zigzag_series)
   = [101, 100, 101, 100, 101, 100, 101, 100, 101, 100,
      101, 100, 101, 100, 101, 100, 101, 100, 101, 100]"
  by (simp add: slice_def zigzag_series_def take_map drop_map zigzag_point_def
      upt_rec [of _ "29"])

lemma zigzag_last: "zigzag_series ! 29 = zigzag_point 29" "length zigzag_series = 30"
  by (simp_all add: zigzag_series_def)

lemma zigzag_breakoutsAt: "breakoutsAt zigzag_series 29 = [zigzag_breakout]"
  by (simp add: breakoutsAt_def windowHigh_def windowLow_def zigzag_window zigzag_last
      zigzag_point_def zigzag_breakout_def jsub_def jgt_def lookback_def Let_def)

lemma findManyPrices_all_sorted:
  assumes "sorted (map pp_date tbl)"
  shows "findManyPrices tbl None None = tbl"
  using assms by (simp add: findManyPrices_def sort_key_id_if_sorted)

lemma zigzag_sorted: "sorted (map pp_date zigzag_series)"
  by (simp add: zigzag_series_def zigzag_point_def sorted_iff_nth_mono msPerDay_def comp_def)

lemma zigzag_detected: "zigzag_breakout \<in> set (detectPatterns zigzag_series None None)"
proof -
  have "zigzag_breakout \<in> set (breakoutsAt zigzag_series 29)"
    by (simp add: zigzag_breakoutsAt)
  moreover have "(29::nat) \<in> set [lookback ..< length zigzag_series]"
    by (simp add: lookback_def zigzag_last)
  ultimately have "zigzag_breakout \<in> set (detectBreakouts zigzag_series)"
    unfolding detectBreakouts_def by (simp only: set_concat set_map) blast
  then show ?thesis
    by (simp add: detectPatterns_def findManyPrices_all_sorted [OF zigzag_sorted] zigzag_last
        set_sortByConfidence)
qed

theorem C8_pattern_bounds_witness:
  "zigzag_breakout \<in> set (detectPatterns zigzag_series None None)
   \<and> (\<exists>c m. dp_confidence zigzag_breakout = Fin c \<and> 0 \<le> c \<and> c \<le> 1
           \<and> dp_predictedMove zigzag_breakout = Fin m
           \<and> ((dp_patternType zigzag_breakout \<in> {''breakout_up'', ''breakout_down'',
                   ''double_top'', ''double_bottom''} \<and> \<bar>m\<bar> \<le> 8)
                \<or> (dp_patternType zigzag_breakout = ''golden_cross'' \<and> m = 5)
                \<or> (dp_patternType zigzag_breakout = ''death_cross'' \<and> m = - 5)
                \<or> (dp_patternType zigzag_breakout = ''high_volatility_spike'' \<and> m = 0)))"
  using C8_pattern_bounds [OF zigzag_detected] zigzag_detected by blast

theorem C9_insufficient_data_witness:
  "length (findManyPrices short_series None None) = 2
   \<and> detectPatterns short_series None None = []"
proof -
  have l: "length (findManyPrices short_series None None) = 2"
    by (simp add: findManyPrices_def short_series_def)
  then have "length (findManyPrices short_series None None) < 30" by simp
  from C9_insufficient_data [OF this] l show ?thesis by simp
qed


lemma jlt_Fin: "jlt (Fin a) (Fin b) \<longleftrightarrow> a < b"
  by simp

lemma breakoutsAt_types:
  assumes "windowHigh prices i = Fin h" and "windowLow prices i = Fin l"
  shows "''breakout_up'' \<in> set (map dp_patternType (breakoutsAt prices i))
           \<longleftrightarrow> (h < closePrice (prices ! i)
                \<and> (\<exists>pct. dailyChangePct (prices ! i) = Some pct \<and> pct > 1.5)
                \<and> (\<exists>vol. volatility7d (prices ! i) = Some vol \<and> vol \<noteq> Fin 0 \<and> vol \<noteq> NaN))"
    and "''breakout_down'' \<in> set (map dp_patternType (breakoutsAt prices i))
           \<longleftrightarrow> (closePrice (prices ! i) < l
                \<and> (\<exists>pct. dailyChangePct (prices ! i) = Some pct \<and> pct < - 1.5)
                \<and> (\<exists>vol. volatility7d (prices ! i) = Some vol \<and> vol \<noteq> Fin 0 \<and> vol \<noteq> NaN))"
proof -
  let ?up = "''breakout_up'' \<in> set (map dp_patternType (breakoutsAt prices i))
           \<longleftrightarrow> (h < closePrice (prices ! i)
                \<and> (\<exists>pct. dailyChangePct (prices ! i) = Some pct \<and> pct > 1.5)
                \<and> (\<exists>vol. volatility7d (prices ! i) = Some vol \<and> vol \<noteq> Fin 0 \<and> vol \<noteq> NaN))"
  let ?down = "''breakout_down'' \<in> set (map dp_patternType (breakoutsAt prices i))
           \<longleftrightarrow> (closePrice (prices ! i) < l
                \<and> (\<exists>pct. dailyChangePct (prices ! i) = Some pct \<and> pct < - 1.5)
                \<and> (\<exists>vol. volatility7d (prices ! i) = Some vol \<and> vol \<noteq> Fin 0 \<and> vol \<noteq> NaN))"
  have "?up \<and> ?down"
  proof (cases "dailyChangePct (prices ! i)")
    case None
    then show ?thesis by (simp add: breakoutsAt_def Let_def)
  next
    case pct: (Some pct)
    show ?thesis
    proof (cases "volatility7d (prices ! i)")
      case None
      then show ?thesis using pct by (simp add: breakoutsAt_def Let_def)
    next
      case (Some vol)
      then show ?thesis
        using pct
        by (auto simp add: breakoutsAt_def Let_def assms jgt_Fin
            simp del: jsnum_ops)
    qed
  qed
  then show ?up and ?down by blast+
qed

text \<open>
  C7 (amended): at an index with a full trailing window of 20 days, \<open>detectBreakouts\<close>
  emits a \<open>breakout_up\<close> exactly when the close exceeds the window high, the daily change
  is above 1.5 and the point's \<open>volatility7d\<close> is neither null, nor 0, nor \<open>NaN\<close>; and a
  \<open>breakout_down\<close> exactly when the close is below the window low, the daily change is
  below -1.5 and \<open>volatility7d\<close> is neither null, nor 0, nor \<open>NaN\<close>.
\<close>

theorem C7_breakout_condition:
  assumes "lookback \<le> i" and "i < length prices"
  shows "(''breakout_up'' \<in> set (map dp_patternType (breakoutsAt prices i))
           \<longleftrightarrow> (Max (closePrice ` set (slice (i - lookback) i prices)) < closePrice (prices ! i)
                \<and> (\<exists>pct. dailyChangePct (prices ! i) = Some pct \<and> pct > 1.5)
                \<and> (\<exists>vol. volatility7d (prices ! i) = Some vol
                          \<and> vol \<noteq> Fin 0 \<and> vol \<noteq> NaN)))
       \<and> (''breakout_down'' \<in> set (map dp_patternType (breakoutsAt prices i))
           \<longleftrightarrow> (closePrice (prices ! i) < Min (closePrice ` set (slice (i - lookback) i prices))
                \<and> (\<exists>pct. dailyChangePct (prices ! i) = Some pct \<and> pct < - 1.5)
                \<and> (\<exists>vol. volatility7d (prices ! i) = Some vol
                          \<and> vol \<noteq> Fin 0 \<and> vol \<noteq> NaN)))"
  using breakoutsAt_types [OF windowHigh_Fin [OF assms] windowLow_Fin [OF assms]]
  by blast

theorem C7_breakout_condition_witness:
  "lookback \<le> 29 \<and> 29 < length zigzag_series
   \<and> map dp_patternType (breakoutsAt zigzag_series 29) = [''breakout_up'']
   \<and> Max (closePrice ` set (slice (29 - lookback) 29 zigzag_series))
         < closePrice (zigzag_series ! 29)
   \<and> dailyChangePct (zigzag_series ! 29) = Some 11
   \<and> volatility7d (zigzag_series ! 29) = Some (Fin 1)"
proof -
  have a: "lookback \<le> 29" "29 < length zigzag_series"
    by (simp_all add: lookback_def zigzag_last)
  have t: "map dp_patternType (breakoutsAt zigzag_series 29) = [''breakout_up'']"
    by (simp add: zigzag_breakoutsAt zigzag_breakout_def)
  have p: "dailyChangePct (zigzag_series ! 29) = Some 11"
      "volatility7d (zigzag_series ! 29) = Some (Fin 1)"
    by (simp_all add: zigzag_last zigzag_point_def)
  show ?thesis
    using C7_breakout_condition [OF a] a t p by simp
qed

lemma doubling_window:
  "map closePrice (slice 9 29 doubling_series) = map (\<lambda>i. 2 ^ i) [9 ..< 29]"
  by (simp add: slice_def doubling_series_def take_map drop_map doubling_point_def comp_def
      upt_rec [of _ "29"])

lemma doubling_nth: "i < 30 \<Longrightarrow> doubling_series ! i = doubling_point i"
  by (simp add: doubling_series_def)

lemma doubling_length: "length doubling_series = 30"
  by (simp add: doubling_series_def)

lemma doubling_sorted: "sorted (map pp_date doubling_series)"
  by (simp add: doubling_series_def doubling_point_def sorted_iff_nth_mono msPerDay_def comp_def)

lemma doubling_no_breakouts: "detectBreakouts doubling_series = []"
proof -
  have "breakoutsAt doubling_series i = []" if "i \<in> set [lookback ..< length doubling_series]" for i
  proof -
    have i: "20 \<le> i" "i < 30" using that by (auto simp: lookback_def doubling_length)
    then have "volatility7d (doubling_series ! i) = Some (Fin 0)"
      by (simp add: doubling_nth doubling_point_def)
    then show ?thesis
      by (simp add: breakoutsAt_def Let_def split: option.splits)
  qed
  then show ?thesis
    unfolding detectBreakouts_def by (simp only: concat_eq_Nil_conv set_map) blast
qed

lemma breakout_up_origin:
  assumes "p \<in> set (detectPatterns tbl startDate endDate)"
      and "dp_patternType p = ''breakout_up''"
  shows "p \<in> set (detectBreakouts (findManyPrices tbl startDate endDate))"
  using assms(1)
proof (cases rule: detectPatterns_members)
  case (1 i)
  then show ?thesis using crossAt_fields [OF 1] assms(2) by auto
next
  case (2 i)
  then show ?thesis
    unfolding detectBreakouts_def by (simp only: set_concat set_map) (auto simp: lookback_def)
next
  case 3
  then show ?thesis using detectVolatilitySpikes_fields [OF 3] assms(2) by auto
next
  case (4 first second)
  then show ?thesis using doubleTopOf_fields [OF 4] assms(2) by auto
next
  case (5 first second)
  then show ?thesis using doubleBottomOf_fields [OF 5] assms(2) by auto
qed

text \<open>
  The metrics stored in \<open>doubling_series\<close> are the ones the metrics calculator computes
  for its closes: on the last day a change of 100 percent and a seven-day volatility of 0.
\<close>

lemma doubling_closes: "map closePrice doubling_series = map (\<lambda>i. 2 ^ i) [0 ..< 30]"
  by (simp add: doubling_series_def doubling_point_def comp_def)

lemma doubling_returns:
  "returnsWindow (map (\<lambda>i. 2 ^ i) [0 ..< 30]) 29 7
     = [Fin 1, Fin 1, Fin 1, Fin 1, Fin 1, Fin 1, Fin 1]"
  by (simp add: returnsWindow_def upt_rec [of _ "30"])

lemma equal_returns_volatility:
  "volatilityOf [Fin 1, Fin 1, Fin 1, Fin 1, Fin 1, Fin 1, Fin 1] = Some (Fin 0)"
  by (simp add: volatilityOf_def jsub_def)

lemma doubling_metrics:
  "dm_dailyChangePct (metricsAt (map closePrice doubling_series) 29) = Some 100"
  "dm_volatility7d (metricsAt (map closePrice doubling_series) 29) = Some (Fin 0)"
  unfolding doubling_closes
   apply (simp add: metricsAt_def)
  apply (simp add: metricsAt_def doubling_returns equal_returns_volatility)
  done

lemma nan_tail_window:
  "map closePrice (slice 9 29 nan_tail_series) = map (\<lambda>i. 2 ^ i) [9 ..< 29]"
  by (simp add: slice_def nan_tail_series_def take_map drop_map doubling_point_def comp_def
      upt_rec [of _ "29"])

lemma nan_tail_last:
  "nan_tail_series ! 29 = (doubling_point 29)\<lparr>volatility7d := Some NaN\<rparr>"
  "length nan_tail_series = 30"
  by (simp_all add: nan_tail_series_def)

text \<open>
  C7, as stated, fails: on the last day of the thirty days of \<open>doubling_series\<close> the close
  is above the high of the twenty days before and the daily change is 100 percent, yet
  nothing is emitted, because the stored seven-day volatility is 0 and the loop skips a
  point whose \<open>dailyChangePct\<close> or \<open>volatility7d\<close> is falsy. The detector reports no
  breakout for the series, and so does \<open>detectPatterns\<close>. Nothing is emitted either on
  the last day of \<open>nan_tail_series\<close>, where the stored volatility is \<open>NaN\<close>.
\<close>

theorem C7_zero_volatility_counterexample:
  "length (findManyPrices doubling_series None None) = 30
   \<and> lookback \<le> 29 \<and> 29 < length doubling_series
   \<and> jgt (Fin (closePrice (doubling_series ! 29))) (windowHigh doubling_series 29)
   \<and> dailyChangePct (doubling_series ! 29) = Some 100 \<and> (100::real) > 1.5
   \<and> volatility7d (doubling_series ! 29) = Some (Fin 0)
   \<and> breakoutsAt doubling_series 29 = []
   \<and> detectBreakouts doubling_series = []
   \<and> ''breakout_up'' \<notin> set (map dp_patternType (detectPatterns doubling_series None None))
   \<and> 29 < length nan_tail_series
   \<and> jgt (Fin (closePrice (nan_tail_series ! 29))) (windowHigh nan_tail_series 29)
   \<and> dailyChangePct (nan_tail_series ! 29) = Some 100
   \<and> volatility7d (nan_tail_series ! 29) = Some NaN
   \<and> breakoutsAt nan_tail_series 29 = []"
proof -
  have h': "windowHigh nan_tail_series 29 = Fin 268435456"
    by (simp add: windowHigh_def lookback_def nan_tail_window upt_rec [of _ "29"])
  have e': "breakoutsAt nan_tail_series 29 = []"
    by (simp add: breakoutsAt_def Let_def nan_tail_last doubling_point_def)
  have t: "29 < length nan_tail_series"
      "jgt (Fin (closePrice (nan_tail_series ! 29))) (windowHigh nan_tail_series 29)"
      "dailyChangePct (nan_tail_series ! 29) = Some 100"
      "volatility7d (nan_tail_series ! 29) = Some NaN"
    using h' by (simp_all add: nan_tail_last doubling_point_def jgt_def)
  have f: "findManyPrices doubling_series None None = doubling_series"
    by (rule findManyPrices_all_sorted [OF doubling_sorted])
  have h: "windowHigh doubling_series 29 = Fin 268435456"
    by (simp add: windowHigh_def lookback_def doubling_window upt_rec [of _ "29"])
  have e: "breakoutsAt doubling_series 29 = []"
    by (simp add: breakoutsAt_def Let_def doubling_nth doubling_point_def)
  have n: "''breakout_up'' \<notin> set (map dp_patternType (detectPatterns doubling_series None None))"
  proof
    assume "''breakout_up'' \<in> set (map dp_patternType (detectPatterns doubling_series None None))"
    then obtain p where p: "p \<in> set (detectPatterns doubling_series None None)"
        "dp_patternType p = ''breakout_up''"
      by auto
    from breakout_up_origin [OF p] show False
      by (simp add: f doubling_no_breakouts)
  qed
  show ?thesis
    using h e n doubling_no_breakouts t e'
    by (simp add: f doubling_length doubling_nth doubling_point_def lookback_def jgt_def)
qed

section \<open>Properties of the signal predictor\<close>

lemma sourceWeights_pos: "0 < sourceWeights s"
  by (cases s) (simp_all add: sourceWeights_def)

lemma weightOf_nonneg: "0 \<le> sig_strength s \<Longrightarrow> 0 \<le> weightOf s"
  unfolding weightOf_def using sourceWeights_pos [of "sig_source s"] by simp

lemma weightOf_pos: "0 < sig_strength s \<Longrightarrow> 0 < weightOf s"
  unfolding weightOf_def using sourceWeights_pos [of "sig_source s"] by simp

lemma addSignal_weight:
  "addSignal (b, r, t) s =
     (if sig_direction s = bullish then (b + weightOf s, r, t + weightOf s)
      else if sig_direction s = bearish then (b, r + weightOf s, t + weightOf s)
      else (b, r, t + weightOf s))"
  by (simp add: addSignal_def weightOf_def Let_def)

lemma foldl_addSignal_inv:
  assumes "\<forall>s \<in> set sigs. 0 \<le> sig_strength s"
      and "0 \<le> b" and "0 \<le> r" and "b + r \<le> t"
      and "foldl addSignal (b, r, t) sigs = (b', r', t')"
  shows "0 \<le> b' \<and> 0 \<le> r' \<and> b' + r' \<le> t'"
  using assms
proof (induction sigs arbitrary: b r t)
  case Nil
  then show ?case by simp
next
  case (Cons s sigs)
  have w: "0 \<le> weightOf s" using Cons.prems(1) by (simp add: weightOf_nonneg)
  obtain b1 r1 t1 where st: "addSignal (b, r, t) s = (b1, r1, t1)"
    by (cases "addSignal (b, r, t) s") auto
  have inv: "0 \<le> b1" "0 \<le> r1" "b1 + r1 \<le> t1"
    using st w Cons.prems(2,3,4) by (auto simp: addSignal_weight split: if_splits)
  have "foldl addSignal (b1, r1, t1) sigs = (b', r', t')"
    using Cons.prems(5) st by simp
  from Cons.IH [OF _ inv this] Cons.prems(1) show ?case by simp
qed

lemma netScoreOf_bounds:
  assumes "\<forall>s \<in> set sigs. 0 \<le> sig_strength s"
  shows "\<bar>netScoreOf sigs\<bar> \<le> 1"
proof -
  obtain b r t where f: "foldl addSignal (0, 0, 0) sigs = (b, r, t)"
    by (cases "foldl addSignal (0, 0, 0) sigs") auto
  have inv: "0 \<le> b" "0 \<le> r" "b + r \<le> t"
    using foldl_addSignal_inv [OF assms _ _ _ f] by auto
  show ?thesis
  proof (cases "t > 0")
    case True
    have "\<bar>b - r\<bar> \<le> t" using inv by linarith
    then have "\<bar>(b - r) / t\<bar> \<le> 1" using True by (simp add: abs_divide)
    then show ?thesis using True f by (simp add: netScoreOf_def)
  next
    case False
    then show ?thesis using f by (simp add: netScoreOf_def)
  qed
qed

lemma fuseSignals_fields:
  "pr_signals (fuseSignals now cp h sigs) = sigs"
  "pr_predictedDirection (fuseSignals now cp h sigs) =
     (if \<bar>netScoreOf sigs\<bar> < 0.1 then sideways else if netScoreOf sigs > 0 then up else down)"
  "pr_confidence (fuseSignals now cp h sigs) =
     (if \<bar>netScoreOf sigs\<bar> < 0.1 then 30 + (1 - \<bar>netScoreOf sigs\<bar> * 10) * 20
      else if netScoreOf sigs > 0 then min (50 + netScoreOf sigs * 50) 90
      else min (50 + \<bar>netScoreOf sigs\<bar> * 50) 90)"
  "pr_predictedChange (fuseSignals now cp h sigs) =
     (if \<bar>netScoreOf sigs\<bar> < 0.1 then 0 else netScoreOf sigs * 5)"
  unfolding fuseSignals_def Let_def
  by (simp_all only: split: if_splits prod.splits) (simp_all)


lemma fuseSignals_bounds:
  assumes "\<forall>s \<in> set sigs. 0 \<le> sig_strength s"
  shows "30 \<le> pr_confidence (fuseSignals now cp h sigs)
         \<and> pr_confidence (fuseSignals now cp h sigs) \<le> 90
         \<and> \<bar>pr_predictedChange (fuseSignals now cp h sigs)\<bar> \<le> 5
         \<and> (pr_predictedDirection (fuseSignals now cp h sigs) = sideways \<longrightarrow>
                30 < pr_confidence (fuseSignals now cp h sigs)
                \<and> pr_confidence (fuseSignals now cp h sigs) \<le> 50
                \<and> pr_predictedChange (fuseSignals now cp h sigs) = 0)
         \<and> (pr_predictedDirection (fuseSignals now cp h sigs) \<noteq> sideways \<longrightarrow>
                55 \<le> pr_confidence (fuseSignals now cp h sigs)
                \<and> pr_predictedChange (fuseSignals now cp h sigs) = netScoreOf sigs * 5)"
proof -
  define n where "n = netScoreOf sigs"
  have n: "\<bar>n\<bar> \<le> 1" unfolding n_def using netScoreOf_bounds [OF assms] .
  show ?thesis
    unfolding fuseSignals_fields n_def [symmetric]
    using n by (auto simp: min_def abs_if split: if_splits)
qed

lemma foldl_addSignal_one_sided:
  assumes "\<forall>s \<in> set sigs. sig_direction s = d"
  shows "foldl addSignal (b, r, t) sigs =
           (if d = bullish then (b + sum_list (map weightOf sigs), r, t + sum_list (map weightOf sigs))
            else if d = bearish
            then (b, r + sum_list (map weightOf sigs), t + sum_list (map weightOf sigs))
            else (b, r, t + sum_list (map weightOf sigs)))"
  using assms
  by (induction sigs arbitrary: b r t) (auto simp: addSignal_weight)

lemma sum_weights_pos:
  assumes "\<forall>s \<in> set sigs. 0 \<le> sig_strength s" and "\<exists>s \<in> set sigs. 0 < sig_strength s"
  shows "0 < sum_list (map weightOf sigs)"
  using assms
proof (induction sigs)
  case Nil
  then show ?case by simp
next
  case (Cons s sigs)
  have rest: "0 \<le> sum_list (map weightOf sigs)"
    using Cons.prems(1) by (intro sum_list_nonneg) (auto simp: weightOf_nonneg)
  show ?case
  proof (cases "0 < sig_strength s")
    case True
    then show ?thesis using rest weightOf_pos [of s] by simp
  next
    case False
    then have "\<exists>s \<in> set sigs. 0 < sig_strength s" using Cons.prems(2) by auto
    then have "0 < sum_list (map weightOf sigs)" using Cons.IH Cons.prems(1) by simp
    moreover have "0 \<le> weightOf s" using Cons.prems(1) by (simp add: weightOf_nonneg)
    ultimately show ?thesis by simp
  qed
qed

lemma netScoreOf_one_sided:
  assumes "\<forall>s \<in> set sigs. 0 \<le> sig_strength s" and "\<exists>s \<in> set sigs. 0 < sig_strength s"
  shows "(\<forall>s \<in> set sigs. sig_direction s = bullish) \<Longrightarrow> netScoreOf sigs = 1"
    and "(\<forall>s \<in> set sigs. sig_direction s = bearish) \<Longrightarrow> netScoreOf sigs = - 1"
proof -
  let ?W = "sum_list (map weightOf sigs)"
  have W: "0 < ?W" using sum_weights_pos [OF assms] .
  show "netScoreOf sigs = 1" if a: "\<forall>s \<in> set sigs. sig_direction s = bullish"
  proof -
    have "foldl addSignal (0, 0, 0) sigs = (?W, 0, ?W)"
      using foldl_addSignal_one_sided [OF a, of 0 0 0] by simp
    then show ?thesis using W by (simp add: netScoreOf_def)
  qed
  show "netScoreOf sigs = - 1" if a: "\<forall>s \<in> set sigs. sig_direction s = bearish"
  proof -
    have "foldl addSignal (0, 0, 0) sigs = (0, ?W, ?W)"
      using foldl_addSignal_one_sided [OF a, of 0 0 0] by simp
    then show ?thesis using W by (simp add: netScoreOf_def)
  qed
qed

lemma foldl_addSignal_zero:
  assumes "\<forall>s \<in> set sigs. sig_strength s = 0"
  shows "foldl addSignal (b, r, t) sigs = (b, r, t)"
  using assms
  by (induction sigs) (auto simp: addSignal_weight weightOf_def)

lemma netScoreOf_zero:
  assumes "\<forall>s \<in> set sigs. sig_strength s = 0"
  shows "netScoreOf sigs = 0"
  by (simp add: netScoreOf_def foldl_addSignal_zero [OF assms])

text \<open>
  C6 (amended): take any collection of signals whose strengths are not negative, as the
  strengths of all gathered signals are. If at least one strength is positive, the
  fusion step returns \<open>up\<close> with a positive predicted change when every signal is
  bullish, and \<open>down\<close> with a negative predicted change when every signal is bearish. If
  no strength is positive (the collection is empty, or every strength is 0), the total
  weight, the third component of the state of the loop, is 0 and the fusion step
  returns \<open>sideways\<close> with a predicted change of 0, whatever the directions of the
  signals.
\<close>

theorem C6_sidedness:
  assumes "\<forall>s \<in> set sigs. 0 \<le> sig_strength s"
  shows "((\<exists>s \<in> set sigs. 0 < sig_strength s) \<and> (\<forall>s \<in> set sigs. sig_direction s = bullish)
            \<longrightarrow> pr_predictedDirection (fuseSignals now cp h sigs) = up
                \<and> pr_predictedChange (fuseSignals now cp h sigs) > 0)
       \<and> ((\<exists>s \<in> set sigs. 0 < sig_strength s) \<and> (\<forall>s \<in> set sigs. sig_direction s = bearish)
            \<longrightarrow> pr_predictedDirection (fuseSignals now cp h sigs) = down
                \<and> pr_predictedChange (fuseSignals now cp h sigs) < 0)
       \<and> (\<not> (\<exists>s \<in> set sigs. 0 < sig_strength s)
            \<longrightarrow> snd (snd (foldl addSignal (0, 0, 0) sigs)) = 0
                \<and> pr_predictedDirection (fuseSignals now cp h sigs) = sideways
                \<and> pr_predictedChange (fuseSignals now cp h sigs) = 0)"
proof (intro conjI impI)
  assume a: "(\<exists>s \<in> set sigs. 0 < sig_strength s) \<and> (\<forall>s \<in> set sigs. sig_direction s = bullish)"
  then have n: "netScoreOf sigs = 1"
    using netScoreOf_one_sided(1) [OF assms] by blast
  show "pr_predictedDirection (fuseSignals now cp h sigs) = up"
    and "pr_predictedChange (fuseSignals now cp h sigs) > 0"
    by (simp_all add: fuseSignals_fields n)
next
  assume a: "(\<exists>s \<in> set sigs. 0 < sig_strength s) \<and> (\<forall>s \<in> set sigs. sig_direction s = bearish)"
  then have n: "netScoreOf sigs = - 1"
    using netScoreOf_one_sided(2) [OF assms] by blast
  show "pr_predictedDirection (fuseSignals now cp h sigs) = down"
    and "pr_predictedChange (fuseSignals now cp h sigs) < 0"
    by (simp_all add: fuseSignals_fields n)
next
  assume "\<not> (\<exists>s \<in> set sigs. 0 < sig_strength s)"
  then have z: "\<forall>s \<in> set sigs. sig_strength s = 0"
    using assms by (meson antisym_conv not_le)
  show "snd (snd (foldl addSignal (0, 0, 0) sigs)) = 0"
    by (simp add: foldl_addSignal_zero [OF z])
  show "pr_predictedDirection (fuseSignals now cp h sigs) = sideways"
    and "pr_predictedChange (fuseSignals now cp h sigs) = 0"
    by (simp_all add: fuseSignals_fields netScoreOf_zero [OF z])
qed


lemma rsiSignals_strength: "s \<in> set (rsiSignals rsi) \<Longrightarrow> 0 \<le> sig_strength s"
  by (auto simp: rsiSignals_def split: if_splits)

lemma macdSignals_strength: "s \<in> set (macdSignals m) \<Longrightarrow> 0 \<le> sig_strength s"
  by (auto simp: macdSignals_def split: option.splits if_splits)

lemma crossoverOf_strength: "s \<in> set (crossoverOf diff) \<Longrightarrow> 0 \<le> sig_strength s"
  by (auto simp: crossoverOf_def split: if_splits)

lemma crossoverSignals_strength: "s \<in> set (crossoverSignals p) \<Longrightarrow> 0 \<le> sig_strength s"
  using crossoverOf_strength
  by (auto simp: crossoverSignals_def split: option.splits if_splits)

lemma capped_abs_nonneg:
  assumes "jmin (jmul (jabs x) (Fin c)) (Fin d) = Fin r" and "0 \<le> c" and "0 \<le> d"
  shows "0 \<le> r"
  using assms by (cases x) (auto simp: inf_of_sign_def split: if_splits)

lemma trendOf_strength: "s \<in> set (trendOf x) \<Longrightarrow> 0 \<le> sig_strength s"
proof -
  assume a: "s \<in> set (trendOf x)"
  show ?thesis
  proof (cases "jgt (jabs x) (Fin 1)")
    case True
    show ?thesis
    proof (cases "jmin (jmul (jabs x) (Fin 20)) (Fin 60)")
      case (Fin r)
      then have "sig_strength s = r"
        using a True unfolding trendOf_def by simp
      then show ?thesis using capped_abs_nonneg [OF Fin] by simp
    qed (use a True in \<open>simp_all add: trendOf_def\<close>)
  next
    case False
    then show ?thesis using a unfolding trendOf_def by simp
  qed
qed

lemma trendSignals_strength: "s \<in> set (trendSignals ps) \<Longrightarrow> 0 \<le> sig_strength s"
  using trendOf_strength by (auto simp: trendSignals_def Let_def split: if_splits)

lemma detectTechnicalPatterns_strength:
  assumes "detectTechnicalPatterns ps = Inr sigs" and "s \<in> set sigs"
  shows "0 \<le> sig_strength s"
  using assms rsiSignals_strength macdSignals_strength crossoverSignals_strength
    trendSignals_strength
  by (auto simp: detectTechnicalPatterns_def Let_def split: list.splits)

lemma getPatternSignals_strength: "s \<in> set (getPatternSignals now tbl) \<Longrightarrow> 0 \<le> sig_strength s"
  by (auto simp: getPatternSignals_def patternSignalOf_def Let_def split: option.splits)

lemma getNewsSignals_strength: "s \<in> set (getNewsSignals now tbl) \<Longrightarrow> 0 \<le> sig_strength s"
  by (auto simp: getNewsSignals_def Let_def split: if_splits)

lemma economicOf_strength: "s \<in> set (economicOf name x) \<Longrightarrow> 0 \<le> sig_strength s"
proof -
  assume a: "s \<in> set (economicOf name x)"
  obtain direction description where i: "interpretChange name x = (direction, description)"
    by (cases "interpretChange name x") auto
  show ?thesis
  proof (cases "direction \<noteq> neutral \<and> jgt (jabs x) (Fin 0.5)")
    case True
    show ?thesis
    proof (cases "jmin (jmul (jabs x) (Fin 10)) (Fin 50)")
      case (Fin r)
      have "economicOf name x =
              [\<lparr>sig_source = economic, sig_name = name, sig_direction = direction,
                sig_strength = r, sig_description = description\<rparr>]"
        using i True Fin by (simp add: economicOf_def)
      then have "sig_strength s = r" using a by simp
      then show ?thesis using capped_abs_nonneg [OF Fin] by simp
    next
      case PInf
      then have "economicOf name x = []" using i True by (simp add: economicOf_def)
      then show ?thesis using a by simp
    next
      case NInf
      then have "economicOf name x = []" using i True by (simp add: economicOf_def)
      then show ?thesis using a by simp
    next
      case NaN
      then have "economicOf name x = []" using i True by (simp add: economicOf_def)
      then show ?thesis using a by simp
    qed
  next
    case False
    then have "economicOf name x = []" using i by (auto simp add: economicOf_def)
    then show ?thesis using a by simp
  qed
qed

lemma economicSignalOf_strength:
  "s \<in> set (economicSignalOf name vals) \<Longrightarrow> 0 \<le> sig_strength s"
  using economicOf_strength
  by (auto simp: economicSignalOf_def split: list.splits)

lemma getEconomicSignals_strength:
  "s \<in> set (getEconomicSignals now tbl) \<Longrightarrow> 0 \<le> sig_strength s"
  by (auto simp: getEconomicSignals_def Let_def economicSignalOf_strength)

lemma detectTechnicalPatterns_total:
  "ps \<noteq> [] \<Longrightarrow> \<exists>sigs. detectTechnicalPatterns ps = Inr sigs"
  by (cases ps) (simp_all add: detectTechnicalPatterns_def Let_def)

lemma latest_prices_nonempty:
  "tbl \<noteq> [] \<Longrightarrow> rev (take 200 (sort_key (\<lambda>p. - pp_date p) tbl)) \<noteq> []"
proof -
  assume "tbl \<noteq> []"
  then have "length (sort_key (\<lambda>p. - pp_date p) tbl) \<noteq> 0" by simp
  then have "sort_key (\<lambda>p. - pp_date p) tbl \<noteq> []" by (simp only: length_0_conv not_False_eq_True)
  then show ?thesis by (cases "sort_key (\<lambda>p. - pp_date p) tbl") simp_all
qed

lemma generatePrediction_signals:
  assumes "generatePrediction db now h = Inr pred"
  shows "\<exists>cp sigs. pred = fuseSignals now cp h sigs \<and> (\<forall>s \<in> set sigs. 0 \<le> sig_strength s)"
proof -
  let ?prices = "rev (take 200 (sort_key (\<lambda>p. - pp_date p) (ps_goldPrices db)))"
  from assms obtain tech where t: "detectTechnicalPatterns ?prices = Inr tech"
    by (auto simp: generatePrediction_def Let_def split: sum.splits)
  let ?sigs = "tech @ getPatternSignals now (ps_patternOccurrences db)
      @ getNewsSignals now (ps_newsQuantifications db)
      @ getEconomicSignals now (ps_economicIndicators db)"
  have p: "pred = fuseSignals now (closePrice (last ?prices)) h ?sigs"
    using assms t by (simp add: generatePrediction_def Let_def)
  have "\<forall>s \<in> set ?sigs. 0 \<le> sig_strength s"
    using detectTechnicalPatterns_strength [OF t] getPatternSignals_strength
      getNewsSignals_strength getEconomicSignals_strength
    by auto
  then show ?thesis using p by blast
qed

text \<open>
  C10: for every store with at least one price, and whatever the other tables hold,
  \<open>generatePrediction\<close> returns a prediction with confidence in [30, 90] and a predicted
  change of magnitude at most 5. The net score of its signals lies in [-1, 1]; a
  \<open>sideways\<close> prediction has confidence in (30, 50] and change 0; an \<open>up\<close> or \<open>down\<close>
  prediction has confidence in [55, 90] and change \<open>netScore * 5\<close>.
\<close>

theorem C10_prediction_bounds:
  assumes "ps_goldPrices db \<noteq> []"
  shows "\<exists>pred. generatePrediction db now h = Inr pred
           \<and> 30 \<le> pr_confidence pred \<and> pr_confidence pred \<le> 90
           \<and> \<bar>pr_predictedChange pred\<bar> \<le> 5
           \<and> \<bar>netScoreOf (pr_signals pred)\<bar> \<le> 1
           \<and> (pr_predictedDirection pred = sideways \<longrightarrow>
                  30 < pr_confidence pred \<and> pr_confidence pred \<le> 50
                  \<and> pr_predictedChange pred = 0)
           \<and> (pr_predictedDirection pred \<noteq> sideways \<longrightarrow>
                  55 \<le> pr_confidence pred
                  \<and> pr_predictedChange pred = netScoreOf (pr_signals pred) * 5)"
proof -
  let ?prices = "rev (take 200 (sort_key (\<lambda>p. - pp_date p) (ps_goldPrices db)))"
  obtain tech where "detectTechnicalPatterns ?prices = Inr tech"
    using detectTechnicalPatterns_total [OF latest_prices_nonempty [OF assms]] by blast
  then obtain pred where g: "generatePrediction db now h = Inr pred"
    by (simp add: generatePrediction_def Let_def)
  from generatePrediction_signals [OF g] obtain cp sigs where
    p: "pred = fuseSignals now cp h sigs" and s: "\<forall>s \<in> set sigs. 0 \<le> sig_strength s"
    by blast
  show ?thesis
    using g fuseSignals_bounds [OF s, of now cp h] netScoreOf_bounds [OF s]
    unfolding p by (simp add: fuseSignals_fields(1))
qed


lemma technical_of_single:
  "detectTechnicalPatterns [p] = Inr (crossoverSignals p)"
  by (simp add: detectTechnicalPatterns_def calculateRSI_def calculateMACD_def rsiSignals_def
      macdSignals_def trendSignals_def)

lemma generatePrediction_quiet:
  "generatePrediction quiet_store 0 7 = Inr (fuseSignals 0 2000 7 [])"
  by (simp add: generatePrediction_def quiet_store_def technical_of_single crossoverSignals_def
      getPatternSignals_def getNewsSignals_def getEconomicSignals_def day0_price_def)

lemma netScoreOf_Nil: "netScoreOf [] = 0"
  by (simp add: netScoreOf_def)

theorem C10_prediction_bounds_witness:
  "ps_goldPrices quiet_store \<noteq> []
   \<and> generatePrediction quiet_store 0 7 = Inr (fuseSignals 0 2000 7 [])
   \<and> pr_predictedDirection (fuseSignals 0 2000 7 []) = sideways
   \<and> pr_confidence (fuseSignals 0 2000 7 []) = 50
   \<and> pr_predictedChange (fuseSignals 0 2000 7 []) = 0
   \<and> 30 \<le> pr_confidence (fuseSignals 0 2000 7 [])
   \<and> pr_confidence (fuseSignals 0 2000 7 []) \<le> 90"
proof -
  have n: "ps_goldPrices quiet_store \<noteq> []" by (simp add: quiet_store_def)
  from C10_prediction_bounds [OF n, of 0 7] generatePrediction_quiet
  have "30 \<le> pr_confidence (fuseSignals 0 2000 7 [])
        \<and> pr_confidence (fuseSignals 0 2000 7 []) \<le> 90"
    by auto
  then show ?thesis
    using n generatePrediction_quiet by (simp add: fuseSignals_fields netScoreOf_Nil)
qed

lemma generatePrediction_flat_cross:
  "generatePrediction flat_cross_store 0 7 = Inr (fuseSignals 0 100 7 [flat_death_cross])"
  by (simp add: generatePrediction_def flat_cross_store_def technical_of_single
      crossoverSignals_def crossoverOf_def flat_death_cross_def
      getPatternSignals_def getNewsSignals_def getEconomicSignals_def flat_cross_price_def)

lemma netScoreOf_flat: "netScoreOf [flat_death_cross] = 0"
  by (simp add: netScoreOf_def addSignal_def flat_death_cross_def)

text \<open>
  C6, as stated, fails when the total weight is 0. For a store with one price whose
  50-day and 200-day averages are equal, the only gathered signal is a bearish
  \<open>Death Cross Active\<close> of strength 0, and the prediction is \<open>sideways\<close> with change 0;
  so is the prediction for the empty collection, in which every signal is bullish and
  every signal is bearish.
\<close>

theorem C6_zero_weight_counterexample:
  "generatePrediction flat_cross_store 0 7 = Inr (fuseSignals 0 100 7 [flat_death_cross])
   \<and> sig_direction flat_death_cross = bearish
   \<and> pr_signals (fuseSignals 0 100 7 [flat_death_cross]) = [flat_death_cross]
   \<and> pr_predictedDirection (fuseSignals 0 100 7 [flat_death_cross]) = sideways
   \<and> pr_predictedChange (fuseSignals 0 100 7 [flat_death_cross]) = 0
   \<and> pr_predictedDirection (fuseSignals 0 100 7 []) = sideways
   \<and> pr_predictedChange (fuseSignals 0 100 7 []) = 0"
proof -
  have d: "sig_direction flat_death_cross = bearish" by (simp add: flat_death_cross_def)
  show ?thesis
    using generatePrediction_flat_cross d
    by (simp add: fuseSignals_fields netScoreOf_flat netScoreOf_Nil)
qed

theorem C6_sidedness_witness:
  "sig_direction one_bullish = bullish
   \<and> 0 < sig_strength one_bullish
   \<and> pr_predictedDirection (fuseSignals 0 2000 7 [one_bullish]) = up
   \<and> pr_predictedChange (fuseSignals 0 2000 7 [one_bullish]) > 0
   \<and> sig_direction one_bearish = bearish
   \<and> 0 < sig_strength one_bearish
   \<and> pr_predictedDirection (fuseSignals 0 2000 7 [one_bearish]) = down
   \<and> pr_predictedChange (fuseSignals 0 2000 7 [one_bearish]) < 0
   \<and> sig_strength flat_death_cross = 0
   \<and> snd (snd (foldl addSignal (0, 0, 0) [flat_death_cross])) = 0
   \<and> pr_predictedDirection (fuseSignals 0 100 7 [flat_death_cross]) = sideways
   \<and> pr_predictedChange (fuseSignals 0 100 7 [flat_death_cross]) = 0"
proof -
  have b: "\<forall>s \<in> set [one_bullish]. 0 \<le> sig_strength s"
      "\<exists>s \<in> set [one_bullish]. 0 < sig_strength s"
      "\<forall>s \<in> set [one_bullish]. sig_direction s = bullish"
    by (simp_all add: one_bullish_def)
  have r: "\<forall>s \<in> set [one_bearish]. 0 \<le> sig_strength s"
      "\<exists>s \<in> set [one_bearish]. 0 < sig_strength s"
      "\<forall>s \<in> set [one_bearish]. sig_direction s = bearish"
    by (simp_all add: one_bearish_def)
  have z: "\<forall>s \<in> set [flat_death_cross]. 0 \<le> sig_strength s"
      "\<not> (\<exists>s \<in> set [flat_death_cross]. 0 < sig_strength s)"
      "sig_strength flat_death_cross = 0"
    by (simp_all add: flat_death_cross_def)
  show ?thesis
    using C6_sidedness [OF b(1), of 0 2000 7] C6_sidedness [OF r(1), of 0 2000 7]
      C6_sidedness [OF z(1), of 0 100 7] b r z
    by simp
qed

section \<open>Properties of the metrics calculator\<close>

text \<open>
  What the calculator stores after a close of 0: the return of the next day is
  \<open>Infinity\<close>, so is the mean of a window that holds it, and the deviation of that return
  from the mean is \<open>NaN\<close>. For eight closes of 1 with a 0 on the seventh day, the
  seven-day volatility of the eighth day is \<open>NaN\<close>.
\<close>

lemma zero_close_returns:
  "returnsWindow [1, 1, 1, 1, 1, 1, 0, 1] 7 7
     = [Fin 0, Fin 0, Fin 0, Fin 0, Fin 0, Fin (- 1), PInf]"
  by (simp add: returnsWindow_def upt_rec [of _ "8"] inf_of_sign_def)

lemma zero_close_volatility:
  "dm_volatility7d (metricsAt [1, 1, 1, 1, 1, 1, 0, 1] 7) = Some NaN"
  by (simp add: metricsAt_def zero_close_returns volatilityOf_def jsub_def inf_of_sign_def)

lemma setMetrics_base:
  "gp_id (setMetrics m r) = gp_id r" "gp_date (setMetrics m r) = gp_date r"
  "gp_closePrice (setMetrics m r) = gp_closePrice r"
  by (simp_all add: setMetrics_def)

lemma setMetrics_twice: "setMetrics m (setMetrics m' r) = setMetrics m r"
  by (simp add: setMetrics_def)

lemma rowUpdate_base:
  "gp_id (rowUpdate us r) = gp_id r \<and> gp_date (rowUpdate us r) = gp_date r
   \<and> gp_closePrice (rowUpdate us r) = gp_closePrice r"
  by (induction us arbitrary: r) (simp_all add: setMetrics_base)

lemma rowUpdate_no_match:
  "\<forall>u \<in> set us. fst u \<noteq> gp_id r \<Longrightarrow> rowUpdate us r = r"
  by (induction us arbitrary: r) auto

lemma rowUpdate_setMetrics:
  "rowUpdate us (setMetrics m r) =
     (if \<exists>u \<in> set us. fst u = gp_id r then rowUpdate us r else setMetrics m r)"
proof (induction us arbitrary: m r)
  case Nil
  then show ?case by simp
next
  case (Cons u us)
  show ?case
  proof (cases "gp_id r = fst u")
    case True
    then show ?thesis by (simp add: setMetrics_base setMetrics_twice)
  next
    case False
    then show ?thesis using Cons.IH [of m r] by (auto simp: setMetrics_base)
  qed
qed

lemma rowUpdate_match:
  "\<exists>u \<in> set us. fst u = gp_id r \<Longrightarrow> \<exists>m. rowUpdate us r = setMetrics m r"
proof (induction us arbitrary: r)
  case Nil
  then show ?case by simp
next
  case (Cons u us)
  show ?case
  proof (cases "gp_id r = fst u")
    case True
    show ?thesis
    proof (cases "\<exists>v \<in> set us. fst v = gp_id r")
      case True
      then obtain m where "rowUpdate us r = setMetrics m r" using Cons.IH by blast
      then show ?thesis using \<open>gp_id r = fst u\<close> True by (auto simp add: rowUpdate_setMetrics)
    next
      case False
      then show ?thesis using \<open>gp_id r = fst u\<close> by (auto simp: rowUpdate_setMetrics)
    qed
  next
    case False
    then have "\<exists>v \<in> set us. fst v = gp_id r" using Cons.prems by auto
    then show ?thesis using Cons.IH False by simp
  qed
qed

lemma rowUpdate_idem: "rowUpdate us (rowUpdate us r) = rowUpdate us r"
proof (cases "\<exists>u \<in> set us. fst u = gp_id r")
  case True
  then obtain m where m: "rowUpdate us r = setMetrics m r" using rowUpdate_match by blast
  show ?thesis using True m by (simp add: rowUpdate_setMetrics)
next
  case False
  then have "rowUpdate us r = r" by (simp add: rowUpdate_no_match)
  then show ?thesis by simp
qed

lemma foldl_updateRow:
  "foldl (\<lambda>t i. updateRow (f i) (g i) t) tbl js = map (rowUpdate (map (\<lambda>i. (f i, g i)) js)) tbl"
proof (induction js arbitrary: tbl)
  case Nil
  then show ?case by simp
next
  case (Cons j js)
  have "foldl (\<lambda>t i. updateRow (f i) (g i) t) tbl (j # js)
          = map (rowUpdate (map (\<lambda>i. (f i, g i)) js)) (updateRow (f j) (g j) tbl)"
    by (simp add: Cons.IH)
  also have "\<dots> = map (rowUpdate (map (\<lambda>i. (f i, g i)) (j # js))) tbl"
    by (simp add: updateRow_def comp_def)
  finally show ?case .
qed

lemma calculateDerivedMetrics_rows:
  "calculateDerivedMetrics tbl = (map (rowUpdate (updatesOf tbl)) tbl, length tbl)"
  by (simp add: calculateDerivedMetrics_def updatesOf_def Let_def foldl_updateRow)

lemma insort_key_map:
  assumes "\<And>x. k (g x) = k x"
  shows "insort_key k (g x) (map g xs) = map g (insort_key k x xs)"
  by (induction xs) (simp_all add: assms)

lemma sort_key_map:
  assumes "\<And>x. k (g x) = k x"
  shows "sort_key k (map g xs) = map g (sort_key k xs)"
  by (induction xs) (simp_all add: sort_key_def insort_key_map [where k = k and g = g, OF assms])

lemma sorted_after_update:
  "sort_key gp_date (map (rowUpdate us) tbl) = map (rowUpdate us) (sort_key gp_date tbl)"
  by (rule sort_key_map) (simp add: rowUpdate_base)

lemma updatesOf_after_update: "updatesOf (map (rowUpdate us) tbl) = updatesOf tbl"
proof -
  let ?ps = "sort_key gp_date tbl"
  have c: "map gp_closePrice (map (rowUpdate us) ?ps) = map gp_closePrice ?ps"
    by (simp add: rowUpdate_base comp_def)
  have i: "gp_id (map (rowUpdate us) ?ps ! i) = gp_id (?ps ! i)" if "i < length ?ps" for i
    using that by (simp add: rowUpdate_base)
  show ?thesis
    unfolding updatesOf_def Let_def sorted_after_update c
    using i by (simp del: length_sort)
qed

text \<open>
  C5: recomputing the metrics is idempotent. A second run of \<open>calculateDerivedMetrics\<close>
  on the table that the first run produced returns the same table (every row with the
  same \<open>dailyChange\<close>, \<open>dailyChangePct\<close>, \<open>volatility7d\<close>, \<open>volatility30d\<close>, \<open>sma20\<close>,
  \<open>sma50\<close> and \<open>sma200\<close>) and the same count: a run reads only the ids, the dates and
  the closes, and none of them is written.
\<close>

theorem C5_recompute_idempotent:
  "calculateDerivedMetrics (fst (calculateDerivedMetrics tbl)) = calculateDerivedMetrics tbl"
  by (simp add: calculateDerivedMetrics_rows updatesOf_after_update rowUpdate_idem)


lemma rowUpdate_distinct:
  assumes "distinct (map fst us)" and "(gp_id r, m) \<in> set us"
  shows "rowUpdate us r = setMetrics m r"
  using assms
proof (induction us arbitrary: r)
  case Nil
  then show ?case by simp
next
  case (Cons u us)
  show ?case
  proof (cases "u = (gp_id r, m)")
    case True
    have "gp_id r \<notin> fst ` set us"
      using Cons.prems(1) True by simp
    then have "\<forall>v \<in> set us. fst v \<noteq> gp_id (setMetrics m r)"
      unfolding setMetrics_base by (metis imageI)
    then show ?thesis using True by (simp add: rowUpdate_no_match)
  next
    case False
    then have mem: "(gp_id r, m) \<in> set us" using Cons.prems(2) by simp
    then have "fst (gp_id r, m) \<in> fst ` set us" by (rule imageI)
    then have "gp_id r \<in> set (map fst us)" by simp
    moreover have "fst u \<notin> set (map fst us)" using Cons.prems(1) by simp
    ultimately have "fst u \<noteq> gp_id r" by metis
    then show ?thesis using Cons.IH [OF _ mem] Cons.prems(1) by simp
  qed
qed

lemma distinct_ids_sorted:
  "distinct (map gp_id tbl) \<Longrightarrow> distinct (map gp_id (sort_key gp_date tbl))"
  by (simp add: distinct_map)

lemma updatesOf_ids: "map fst (updatesOf tbl) = map gp_id (sort_key gp_date tbl)"
  by (rule nth_equalityI) (simp_all add: updatesOf_def Let_def)

lemma updatesOf_member:
  assumes "i < length tbl"
  shows "(gp_id (sort_key gp_date tbl ! i),
          metricsAt (map gp_closePrice (sort_key gp_date tbl)) i) \<in> set (updatesOf tbl)"
  using assms by (auto simp: updatesOf_def Let_def)

lemma sorted_result_row:
  assumes "distinct (map gp_id tbl)" and "i < length tbl"
  shows "sort_key gp_date (fst (calculateDerivedMetrics tbl)) ! i
           = setMetrics (metricsAt (map gp_closePrice (sort_key gp_date tbl)) i)
                        (sort_key gp_date tbl ! i)"
proof -
  have d: "distinct (map fst (updatesOf tbl))"
    using distinct_ids_sorted [OF assms(1)] by (simp add: updatesOf_ids)
  have "sort_key gp_date (fst (calculateDerivedMetrics tbl)) ! i
          = rowUpdate (updatesOf tbl) (sort_key gp_date tbl ! i)"
    using assms(2) by (simp add: calculateDerivedMetrics_rows sorted_after_update)
  then show ?thesis
    using rowUpdate_distinct [OF d updatesOf_member [OF assms(2)]] by simp
qed

text \<open>
  C4 (amended): after \<open>calculateDerivedMetrics\<close>, in the series ordered by date, the
  \<open>dailyChange\<close> of point \<open>i\<close> is null exactly when \<open>i = 0\<close> and is otherwise the difference
  of the closes; its \<open>dailyChangePct\<close> is null exactly when \<open>i = 0\<close> or the previous close
  is 0, and is otherwise the change in percent of the previous close. Both are finite
  numbers when present.
\<close>

theorem C4_daily_change_null:
  assumes "distinct (map gp_id tbl)" and "i < length tbl"
  shows "(gp_dailyChange (sort_key gp_date (fst (calculateDerivedMetrics tbl)) ! i) = None
            \<longleftrightarrow> i = 0)
       \<and> (gp_dailyChangePct (sort_key gp_date (fst (calculateDerivedMetrics tbl)) ! i) = None
            \<longleftrightarrow> i = 0 \<or> gp_closePrice (sort_key gp_date tbl ! (i - 1)) = 0)
       \<and> (0 < i \<longrightarrow>
            gp_dailyChange (sort_key gp_date (fst (calculateDerivedMetrics tbl)) ! i)
              = Some (gp_closePrice (sort_key gp_date tbl ! i)
                      - gp_closePrice (sort_key gp_date tbl ! (i - 1))))
       \<and> (0 < i \<and> gp_closePrice (sort_key gp_date tbl ! (i - 1)) \<noteq> 0 \<longrightarrow>
            gp_dailyChangePct (sort_key gp_date (fst (calculateDerivedMetrics tbl)) ! i)
              = Some ((gp_closePrice (sort_key gp_date tbl ! i)
                       - gp_closePrice (sort_key gp_date tbl ! (i - 1)))
                      / gp_closePrice (sort_key gp_date tbl ! (i - 1)) * 100))"
proof -
  have n: "i - 1 < length (sort_key gp_date tbl)" "i < length (sort_key gp_date tbl)"
    using assms(2) by simp_all
  show ?thesis
    unfolding sorted_result_row [OF assms]
    using n by (simp add: setMetrics_def metricsAt_def del: length_sort)
qed

lemma zero_then_five_sorted: "sort_key gp_date zero_then_five = zero_then_five"
  by (simp add: zero_then_five_def msPerDay_def)

text \<open>
  C4, as stated, fails: when the previous close is 0 the \<open>dailyChange\<close> is not null. In
  \<open>zero_then_five\<close> the second point gets \<open>dailyChange = 5\<close> and a null
  \<open>dailyChangePct\<close>.
\<close>

theorem C4_zero_close_counterexample:
  "gp_closePrice (sort_key gp_date zero_then_five ! 0) = 0
   \<and> gp_dailyChange (sort_key gp_date (fst (calculateDerivedMetrics zero_then_five)) ! 1) = Some 5
   \<and> gp_dailyChangePct (sort_key gp_date (fst (calculateDerivedMetrics zero_then_five)) ! 1) = None"
proof -
  have r: "fst (calculateDerivedMetrics zero_then_five)
             = [setMetrics (metricsAt [0, 5] 0) (zero_then_five ! 0),
                setMetrics (metricsAt [0, 5] 1) (zero_then_five ! 1)]"
    by (simp add: calculateDerivedMetrics_def zero_then_five_sorted Let_def updateRow_def)
       (simp add: zero_then_five_def setMetrics_base)
  have s: "sort_key gp_date (fst (calculateDerivedMetrics zero_then_five))
             = fst (calculateDerivedMetrics zero_then_five)"
    unfolding r by (simp add: setMetrics_def zero_then_five_def msPerDay_def)
  show ?thesis
    unfolding s zero_then_five_sorted
    unfolding r by (simp add: setMetrics_def metricsAt_def zero_then_five_def)
qed

theorem C4_daily_change_null_witness:
  "distinct (map gp_id zero_then_five) \<and> (1::nat) < length zero_then_five
   \<and> gp_dailyChange (sort_key gp_date (fst (calculateDerivedMetrics zero_then_five)) ! 1) \<noteq> None
   \<and> gp_closePrice (sort_key gp_date zero_then_five ! (1 - 1)) = 0
   \<and> gp_dailyChangePct (sort_key gp_date (fst (calculateDerivedMetrics zero_then_five)) ! 1) = None"
proof -
  have a: "distinct (map gp_id zero_then_five)" "(1::nat) < length zero_then_five"
    by (simp_all add: zero_then_five_def)
  have z: "gp_closePrice (sort_key gp_date zero_then_five ! (1 - 1)) = 0"
    by (simp add: zero_then_five_sorted) (simp add: zero_then_five_def)
  show ?thesis
    using C4_daily_change_null [OF a] a z by simp
qed


section \<open>Properties of the swing finder\<close>

lemma plateau_nth:
  "plateau_series ! 0 = plateau_point 0" "plateau_series ! 1 = plateau_point 1"
  "plateau_series ! 2 = plateau_point 2" "plateau_series ! 3 = plateau_point 3"
  "plateau_series ! 4 = plateau_point 4" "plateau_series ! 5 = plateau_point 5"
  "plateau_series ! 6 = plateau_point 6" "length plateau_series = 7"
  by (simp_all add: plateau_series_def numeral_2_eq_2)

lemma plateau_nth_Suc:
  "plateau_series ! Suc 0 = plateau_point 1" "plateau_series ! Suc (Suc 0) = plateau_point 2"
  using plateau_nth(2,3) by (simp_all add: numeral_2_eq_2)

lemma plateau_close:
  "closePrice (plateau_point 0) = 100" "closePrice (plateau_point 1) = 103"
  "closePrice (plateau_point 2) = 106" "closePrice (plateau_point 3) = 106"
  "closePrice (plateau_point 4) = 109" "closePrice (plateau_point 5) = 112"
  "closePrice (plateau_point 6) = 110" "closePrice (plateau_point (Suc 0)) = 103"
  by (simp_all add: plateau_point_def plateau_closes_def)

lemma plateau_date: "pp_date (plateau_point i) = int i * msPerDay"
  by (simp add: plateau_point_def)

lemma plateau_closeRun_3: "closeRun plateau_series 5 None 0 3 = [first_leg]"
  by (simp add: closeRun_def Let_def plateau_nth plateau_close plateau_date changePctOf_def
      jge_def jgt_def passesFilter_def differenceInDays_def msPerDay_def first_leg_def)

lemma plateau_step_3:
  "trendStep plateau_series 5 None (0, Some Up, []) 3 = (2, Some Down, [first_leg])"
  by (simp add: trendStep_def Let_def plateau_nth plateau_close plateau_closeRun_3)


lemma plateau_closeRun_4: "closeRun plateau_series 5 None 2 4 = []"
  by (simp add: closeRun_def Let_def plateau_nth plateau_close changePctOf_def jge_def)

lemma plateau_closeRun_6: "closeRun plateau_series 5 None 3 6 = [second_leg]"
  by (simp add: closeRun_def Let_def plateau_nth plateau_close plateau_date changePctOf_def
      jge_def jgt_def passesFilter_def differenceInDays_def msPerDay_def second_leg_def)

lemma plateau_prefix:
  "foldl (trendStep plateau_series 5 None) (0, None, []) [1 ..< 3] = (0, Some Up, [])"
  by (simp add: trendStep_def Let_def plateau_nth plateau_nth_Suc plateau_close
      upt_rec [of _ "3"])

lemma plateau_multiDay: "multiDaySwings plateau_series 5 None [] = [first_leg, second_leg]"
proof -
  have u: "[1 ..< length plateau_series] = [1 ..< 3] @ [3, 4, 5, 6]"
    by (simp add: plateau_nth upt_rec [of _ "7"] upt_rec [of _ "3"])
  have s3: "trendStep plateau_series 5 None (0, Some Up, []) 3 = (2, Some Down, [first_leg])"
    by (rule plateau_step_3)
  have s4: "trendStep plateau_series 5 None (2, Some Down, [first_leg]) 4
              = (3, Some Up, [first_leg])"
    by (simp add: trendStep_def Let_def plateau_nth plateau_close plateau_closeRun_4)
  have s5: "trendStep plateau_series 5 None (3, Some Up, [first_leg]) 5
              = (3, Some Up, [first_leg])"
    by (simp add: trendStep_def Let_def plateau_nth plateau_close)
  have s6: "trendStep plateau_series 5 None (3, Some Up, [first_leg]) 6
              = (5, Some Down, [first_leg, second_leg])"
    by (simp add: trendStep_def Let_def plateau_nth plateau_close plateau_closeRun_6)
  show ?thesis
    unfolding multiDaySwings_def u foldl_append plateau_prefix
    by (simp add: s3 s4 s5 s6)
qed

text \<open>
  C3, as stated, fails: in \<open>plateau_series\<close> day 3 is flat in the middle of a rise from
  100 to 112. The scan is in an up-run that started at day 0 when it reaches day 3; the
  step at day 3 closes that run (100 to 106), moves the trend start to day 2 and turns
  the direction to \<open>down\<close>. The scan reports two swings, 100 to 106 and 106 to 112,
  and none from 100 to 112.
\<close>

theorem C3_flat_day_counterexample:
  "closePrice (plateau_series ! 1) < closePrice (plateau_series ! 2)
   \<and> closePrice (plateau_series ! 3) = closePrice (plateau_series ! 2)
   \<and> closePrice (plateau_series ! 3) < closePrice (plateau_series ! 4)
   \<and> foldl (trendStep plateau_series 5 None) (0, None, []) [1 ..< 3] = (0, Some Up, [])
   \<and> trendStep plateau_series 5 None (0, Some Up, []) 3 = (2, Some Down, [first_leg])
   \<and> multiDaySwings plateau_series 5 None [] = [first_leg, second_leg]"
  using plateau_prefix plateau_step_3 plateau_multiDay
  by (simp add: plateau_nth plateau_nth_Suc plateau_close)

lemma closeRun_fields:
  assumes "s \<in> set (closeRun prices thr dir ts i)"
  shows "sw_startPrice s = closePrice (prices ! ts) \<and> sw_endPrice s = closePrice (prices ! (i - 1))
         \<and> sw_changePercent s = changePctOf (closePrice (prices ! ts)) (closePrice (prices ! (i - 1)))"
proof -
  let ?rec = "\<lambda>d. \<lparr>sw_startDate = pp_date (prices ! ts), sw_endDate = pp_date (prices ! (i - 1)),
      sw_startPrice = closePrice (prices ! ts), sw_endPrice = closePrice (prices ! (i - 1)),
      sw_changePercent = changePctOf (closePrice (prices ! ts)) (closePrice (prices ! (i - 1))),
      sw_changeAbsolute = closePrice (prices ! (i - 1)) - closePrice (prices ! ts),
      sw_durationDays = differenceInDays (pp_date (prices ! (i - 1))) (pp_date (prices ! ts)),
      sw_direction = d\<rparr>"
  have "closeRun prices thr dir ts i = [] \<or> (\<exists>d. closeRun prices thr dir ts i = [?rec d])"
    unfolding closeRun_def Let_def by simp
  then show ?thesis using assms by auto
qed

text \<open>
  C3 (amended): in the multi-day scan a day counts as \<open>up\<close> only when its close is above
  the previous close; a flat day counts as \<open>down\<close>. So a flat day in an up-run ends the
  run: the run from the trend start to the day before is closed (its net change is
  taken between these two days), the next run starts at the day before the flat day,
  and the direction becomes \<open>down\<close>. A flat day in a down-run, or as the first change
  of the series, creates no boundary.
\<close>

theorem C3_flat_day:
  assumes "0 < i" and "i < length prices"
      and "closePrice (prices ! i) = closePrice (prices ! (i - 1))"
  shows "trendStep prices thr dir (ts, Some Up, sw) i
           = (i - 1, Some Down, sw @ closeRun prices thr dir ts i)
       \<and> (\<forall>s \<in> set (closeRun prices thr dir ts i).
             sw_startPrice s = closePrice (prices ! ts)
             \<and> sw_endPrice s = closePrice (prices ! (i - 1)))
       \<and> trendStep prices thr dir (ts, Some Down, sw) i = (ts, Some Down, sw)
       \<and> trendStep prices thr dir (ts, None, sw) i = (ts, Some Down, sw)"
  using assms(3) closeRun_fields [of _ prices thr dir ts i]
  by (simp add: trendStep_def Let_def)

theorem C3_flat_day_witness:
  "(0::nat) < 3 \<and> 3 < length plateau_series
   \<and> closePrice (plateau_series ! 3) = closePrice (plateau_series ! (3 - 1))
   \<and> trendStep plateau_series 5 None (0, Some Up, []) 3 = (2, Some Down, [first_leg])
   \<and> sw_startPrice first_leg = closePrice (plateau_series ! 0)
   \<and> sw_endPrice first_leg = closePrice (plateau_series ! 2)
   \<and> trendStep plateau_series 5 None (0, Some Down, []) 3 = (0, Some Down, [])"
proof -
  have a: "(0::nat) < 3" "3 < length plateau_series"
      "closePrice (plateau_series ! 3) = closePrice (plateau_series ! (3 - 1))"
    by (simp_all add: plateau_nth plateau_close)
  show ?thesis
    using C3_flat_day [OF a, of 5 None 0 "[]"] a
    by (simp add: plateau_closeRun_3)
qed

end
